theory Spec2Isabelle
  imports Main
begin

section \<open>Sender categorization: data model\<close>

text \<open>
  The development follows the sender categorization module of the web application
  (\<^verbatim>\<open>categorizeSenders\<close> and the functions it calls). Asynchronous calls run one
  after the other, so every function is a function of the current world (the database
  and the record of the external calls made so far) that returns its result together
  with the new world. A thrown exception is the left summand of the result; the world it
  is paired with holds the writes that were made before the throw. Logging and the
  revalidation of the page cache are left out, and so are the mail client and the access
  token, which are only handed on to the collaborators.
\<close>

type_synonym date = int \<comment> \<open>a \<^verbatim>\<open>Date\<close>, as milliseconds since the epoch\<close>

datatype error =
  ActionError string \<comment> \<open>the typed error value \<^verbatim>\<open>{ error: string }\<close>\<close>
  | UniqueConstraintViolation \<comment> \<open>thrown by a create that repeats a unique key\<close>
  | RecordNotFound \<comment> \<open>thrown by an update of a row that does not exist\<close>
  | ProviderFailure string \<comment> \<open>thrown by a call to the mailbox provider\<close>
  | EngineFailure string \<comment> \<open>thrown by a call to the classification engine\<close>

text \<open>Rows of the three tables the module reads and writes. Ids are opaque; they are numbers here.\<close>

record categoryRow =
  category_id :: nat
  category_name :: string
  category_description :: "string option"
  category_userId :: string

record newsletterRow =
  newsletter_email :: string
  newsletter_userId :: string
  newsletter_categoryId :: "nat option"

record userRow =
  user_id :: string
  oldestCategorizedEmailTime :: "date option"
  newestCategorizedEmailTime :: "date option"

record store =
  categoryRows :: "categoryRow list"
  newsletterRows :: "newsletterRow list"
  userRows :: "userRow list"
  nextId :: nat

text \<open>The external calls a run makes, in the order it makes them.\<close>

datatype call =
  ProviderFind "string option" "date option" "date option"
  | ProviderThreads string nat
  | EngineBatch "string list"
  | EngineSingle string "string list"

record world =
  db :: store
  calls :: "call list"

text \<open>Transient values.\<close>

record message =
  snippet :: "string option"

record classification =
  sender :: string
  category :: "string option"

record existingSender =
  email :: string
  existing_category :: "(string \<times> string option) option"
    \<comment> \<open>\<^verbatim>\<open>category: { name, description } | null\<close>\<close>

record dateRange =
  oldestDate :: "date option"
  newestDate :: "date option"

record sendersResult =
  result_senders :: "(string \<times> message list) list"
    \<comment> \<open>the entries of the \<^verbatim>\<open>Map\<close>, in order\<close>
  result_nextPageToken :: "string option"
  result_dateRange :: dateRange

record aiResult =
  ai_category :: string

text \<open>
  The collaborators whose code is outside this module: the mailbox provider, the
  classification engine, the access check and the two sender heuristics. Each is a
  function of its arguments; a call that throws returns \<open>Inl\<close>.
\<close>

record env =
  validateUserAndAiAccess :: "store \<Rightarrow> string \<Rightarrow> error + userRow"
  findSenders :: "nat \<Rightarrow> string option \<Rightarrow> date option \<Rightarrow> date option \<Rightarrow> error + sendersResult"
  getThreadsFromSender :: "string \<Rightarrow> nat \<Rightarrow> error + message option list"
  aiCategorizeSenders ::
    "userRow \<Rightarrow> (string \<times> string list) list \<Rightarrow> categoryRow list \<Rightarrow> error + classification list"
  aiCategorizeSender ::
    "userRow \<Rightarrow> string \<Rightarrow> string list \<Rightarrow> categoryRow list \<Rightarrow> error + aiResult option"
  isNewsletterSender :: "string \<Rightarrow> bool"
  isReceiptSender :: "string \<Rightarrow> bool"

section \<open>Constants and helpers\<close>

text \<open>
  Modelled from the spec: the names of the default categories (\<^verbatim>\<open>defaultCategory\<close> of
  \<^verbatim>\<open>utils/categories\<close>) and the engine's sentinel (\<^verbatim>\<open>REQUEST_MORE_INFORMATION_CATEGORY\<close>)
  are imported from files that are not part of the sources; the spec names them
  "Unknown", "Newsletter", "Receipt" and "request more information".
\<close>

definition UNKNOWN_name :: string where
  "UNKNOWN_name = ''Unknown''"

definition NEWSLETTER_name :: string where
  "NEWSLETTER_name = ''Newsletter''"

definition RECEIPT_name :: string where
  "RECEIPT_name = ''Receipt''"

definition REQUEST_MORE_INFORMATION_CATEGORY :: string where
  "REQUEST_MORE_INFORMATION_CATEGORY = ''request more information''"

text \<open>\<^verbatim>\<open>String.prototype.includes\<close>: the argument occurs somewhere in the string.\<close>

fun startsWith :: "string \<Rightarrow> string \<Rightarrow> bool" where
  "startsWith s [] = True"
| "startsWith [] (c # cs) = False"
| "startsWith (d # ds) (c # cs) = (d = c \<and> startsWith ds cs)"

fun includesStr :: "string \<Rightarrow> string \<Rightarrow> bool" where
  "includesStr [] sub = (sub = [])"
| "includesStr (d # ds) sub = (startsWith (d # ds) sub \<or> includesStr ds sub)"

text \<open>lodash \<^verbatim>\<open>uniq\<close>: the first occurrence of every element, in order.\<close>

definition uniq :: "'a list \<Rightarrow> 'a list" where
  "uniq xs = rev (remdups (rev xs))"

text \<open>\<^verbatim>\<open>isDefined\<close> as a filter: the values that are there.\<close>

definition filterDefined :: "'a option list \<Rightarrow> 'a list" where
  "filterDefined xs = List.map_filter (\<lambda>x. x) xs"

text \<open>JavaScript's \<^verbatim>\<open>!r.category\<close> on an optional string: undefined and the empty string are falsy.\<close>

definition falsy :: "string option \<Rightarrow> bool" where
  "falsy c = (case c of None \<Rightarrow> True | Some s \<Rightarrow> s = [])"

section \<open>Static rules\<close>

definition personalEmailDomains :: "string list" where
  "personalEmailDomains =
     [''gmail.com'', ''googlemail.com'', ''yahoo.com'', ''hotmail.com'', ''outlook.com'', ''aol.com'']"

definition isPersonalEmailSender :: "string \<Rightarrow> bool" where
  "isPersonalEmailSender s =
     list_ex (\<lambda>domain. includesStr s (''@'' @ domain @ ''>'')) personalEmailDomains"

definition preCategorizeSender :: "env \<Rightarrow> string \<Rightarrow> classification" where
  "preCategorizeSender e s =
     (if isPersonalEmailSender s then \<lparr>sender = s, category = Some UNKNOWN_name\<rparr>
      else if isNewsletterSender e s then \<lparr>sender = s, category = Some NEWSLETTER_name\<rparr>
      else if isReceiptSender e s then \<lparr>sender = s, category = Some RECEIPT_name\<rparr>
      else \<lparr>sender = s, category = None\<rparr>)"

definition preCategorizeSendersWithStaticRules :: "env \<Rightarrow> string list \<Rightarrow> classification list" where
  "preCategorizeSendersWithStaticRules e ss = map (preCategorizeSender e) ss"

definition isUnknownSender :: "classification \<Rightarrow> bool" where
  "isUnknownSender r =
     (falsy (category r) \<or> category r = Some UNKNOWN_name
      \<or> category r = Some REQUEST_MORE_INFORMATION_CATEGORY)"

section \<open>Persistence\<close>

text \<open>
  Modelled from the spec: the database client, its schema and \<^verbatim>\<open>getUserCategories\<close>
  (of \<^verbatim>\<open>utils/category.server\<close>) are not part of the sources. The spec's data model
  gives the two unique keys: a category name is unique within a user's categories (a create
  that repeats one fails with a duplicate-name conflict), and a sender has at most one
  assignment per user (the key \<^verbatim>\<open>email_userId\<close> of the upsert). The catalog of a user
  is the list of the user's category rows. A failed operation leaves the store as it was.
\<close>

definition getUserCategories :: "store \<Rightarrow> string \<Rightarrow> categoryRow list" where
  "getUserCategories st userId = filter (\<lambda>c. category_userId c = userId) (categoryRows st)"

definition category_create :: "store \<Rightarrow> string \<Rightarrow> string \<Rightarrow> error + (categoryRow \<times> store)" where
  "category_create st categoryName userId =
     (if list_ex (\<lambda>c. category_name c = categoryName \<and> category_userId c = userId) (categoryRows st)
      then Inl UniqueConstraintViolation
      else
        let row = \<lparr>category_id = nextId st, category_name = categoryName,
                   category_description = None, category_userId = userId\<rparr>
        in Inr (row, st\<lparr>categoryRows := categoryRows st @ [row], nextId := Suc (nextId st)\<rparr>))"

definition newsletter_key :: "string \<Rightarrow> string \<Rightarrow> newsletterRow \<Rightarrow> bool" where
  "newsletter_key senderAddress userId n =
     (newsletter_email n = senderAddress \<and> newsletter_userId n = userId)"

definition newsletter_upsert :: "store \<Rightarrow> string \<Rightarrow> string \<Rightarrow> nat \<Rightarrow> newsletterRow \<times> store" where
  "newsletter_upsert st senderAddress userId categoryId =
     (case find (newsletter_key senderAddress userId) (newsletterRows st) of
        Some n \<Rightarrow>
          (n\<lparr>newsletter_categoryId := Some categoryId\<rparr>,
           st\<lparr>newsletterRows :=
                map (\<lambda>m. if newsletter_key senderAddress userId m
                          then m\<lparr>newsletter_categoryId := Some categoryId\<rparr> else m)
                    (newsletterRows st)\<rparr>)
      | None \<Rightarrow>
          let row = \<lparr>newsletter_email = senderAddress, newsletter_userId = userId,
                     newsletter_categoryId = Some categoryId\<rparr>
          in (row, st\<lparr>newsletterRows := newsletterRows st @ [row]\<rparr>))"

definition newsletter_findMany :: "store \<Rightarrow> string list \<Rightarrow> string \<Rightarrow> existingSender list" where
  "newsletter_findMany st ss userId =
     map (\<lambda>n. \<lparr>email = newsletter_email n,
                existing_category =
                  (case newsletter_categoryId n of
                     None \<Rightarrow> None
                   | Some cid \<Rightarrow>
                       map_option (\<lambda>c. (category_name c, category_description c))
                         (find (\<lambda>c. category_id c = cid) (categoryRows st)))\<rparr>)
       (filter (\<lambda>n. newsletter_email n \<in> set ss \<and> newsletter_userId n = userId)
          (newsletterRows st))"

text \<open>
  A field of an update's data: \<^verbatim>\<open>undefined\<close> leaves the column as it is, \<^verbatim>\<open>null\<close> clears
  it, a value sets it. \<open>orUndefined\<close> is the source's \<^verbatim>\<open>x ?? undefined\<close>.
\<close>

datatype 'a fieldWrite = Undefined | Null | Value 'a

definition orUndefined :: "'a option \<Rightarrow> 'a fieldWrite" where
  "orUndefined x = (case x of None \<Rightarrow> Undefined | Some v \<Rightarrow> Value v)"

definition writeField :: "'a fieldWrite \<Rightarrow> 'a option \<Rightarrow> 'a option" where
  "writeField f old = (case f of Undefined \<Rightarrow> old | Null \<Rightarrow> None | Value v \<Rightarrow> Some v)"

definition user_update ::
  "store \<Rightarrow> string \<Rightarrow> date fieldWrite \<Rightarrow> date fieldWrite \<Rightarrow> error + store" where
  "user_update st userId newest oldest =
     (if list_ex (\<lambda>u. user_id u = userId) (userRows st)
      then Inr (st\<lparr>userRows :=
                  map (\<lambda>u. if user_id u = userId
                            then u\<lparr>newestCategorizedEmailTime :=
                                     writeField newest (newestCategorizedEmailTime u),
                                   oldestCategorizedEmailTime :=
                                     writeField oldest (oldestCategorizedEmailTime u)\<rparr>
                            else u)
                      (userRows st)\<rparr>)
      else Inl RecordNotFound)"

definition user_find :: "store \<Rightarrow> string \<Rightarrow> userRow option" where
  "user_find st userId = find (\<lambda>u. user_id u = userId) (userRows st)"

section \<open>The pipeline\<close>

text \<open>A JavaScript \<^verbatim>\<open>Map\<close> as the list of its entries: a later entry for a key replaces the value.\<close>

definition mapGet :: "('k \<times> 'v) list \<Rightarrow> 'k \<Rightarrow> 'v option" where
  "mapGet m k = map_of (rev m) k"

definition mapKeys :: "('k \<times> 'v) list \<Rightarrow> 'k list" where
  "mapKeys m = uniq (map fst m)"

definition logCall :: "call \<Rightarrow> world \<Rightarrow> world" where
  "logCall c w = w\<lparr>calls := calls w @ [c]\<rparr>"

definition snippetsOf :: "(string \<times> message list) list \<Rightarrow> string \<Rightarrow> string list" where
  "snippetsOf sendersMap s =
     (case mapGet sendersMap s of None \<Rightarrow> [] | Some ms \<Rightarrow> filterDefined (map snippet ms))"

definition getCategories :: "store \<Rightarrow> string \<Rightarrow> error + categoryRow list" where
  "getCategories st userId =
     (let categories = getUserCategories st userId
      in if length categories = 0 then Inl (ActionError ''No categories found'')
         else Inr categories)"

definition getPreviousEmails :: "env \<Rightarrow> string \<Rightarrow> world \<Rightarrow> (error + string list) \<times> world" where
  "getPreviousEmails e senderAddress w =
     (let w1 = logCall (ProviderThreads senderAddress 3) w
      in case getThreadsFromSender e senderAddress 3 of
           Inl err \<Rightarrow> (Inl err, w1)
         | Inr threadsFromSender \<Rightarrow>
             (Inr (filterDefined
                     (map (\<lambda>t. case t of None \<Rightarrow> None | Some m \<Rightarrow> snippet m) threadsFromSender)),
              w1))"

definition updateSenderCategory ::
  "string \<Rightarrow> string \<Rightarrow> categoryRow list \<Rightarrow> string \<Rightarrow> world
     \<Rightarrow> (error + (categoryRow option \<times> newsletterRow)) \<times> world" where
  "updateSenderCategory userId senderAddress categories categoryName w =
     (case find (\<lambda>c. category_name c = categoryName) categories of
        Some c \<Rightarrow>
          (let (newsletter, st) = newsletter_upsert (db w) senderAddress userId (category_id c)
           in (Inr (None, newsletter), w\<lparr>db := st\<rparr>))
      | None \<Rightarrow>
          (case category_create (db w) categoryName userId of
             Inl err \<Rightarrow> (Inl err, w)
           | Inr (newCategory, st1) \<Rightarrow>
               (let (newsletter, st) =
                      newsletter_upsert st1 senderAddress userId (category_id newCategory)
                in (Inr (Some newCategory, newsletter), w\<lparr>db := st\<rparr>))))"

definition sendersToCategorizeWithAi :: "classification list \<Rightarrow> string list" where
  "sendersToCategorizeWithAi categorizedSenders =
     map sender (filter (\<lambda>r. falsy (category r)) categorizedSenders)"

definition categorizeWithAi ::
  "env \<Rightarrow> userRow \<Rightarrow> (string \<times> string list) list \<Rightarrow> categoryRow list \<Rightarrow> world
     \<Rightarrow> (error + classification list) \<times> world" where
  "categorizeWithAi e user sendersWithSnippets categories w =
     (let categorizedSenders =
            preCategorizeSendersWithStaticRules e (mapKeys sendersWithSnippets);
          toAi = sendersToCategorizeWithAi categorizedSenders;
          w1 = logCall (EngineBatch toAi) w
      in case aiCategorizeSenders e user
                (map (\<lambda>s. (s, case mapGet sendersWithSnippets s of None \<Rightarrow> [] | Some xs \<Rightarrow> xs)) toAi)
                categories of
           Inl err \<Rightarrow> (Inl err, w1)
         | Inr aiResults \<Rightarrow> (Inr (categorizedSenders @ aiResults), w1))"

definition sendersToCategorize :: "string list \<Rightarrow> existingSender list \<Rightarrow> string list" where
  "sendersToCategorize ss existingSenders =
     filter (\<lambda>s. \<not> list_ex (\<lambda>x. email x = s) existingSenders) ss"

fun saveResults ::
  "string \<Rightarrow> categoryRow list \<Rightarrow> classification list \<Rightarrow> nat \<Rightarrow> world \<Rightarrow> (error + nat) \<times> world" where
  "saveResults userId categories [] categorizedCount w = (Inr categorizedCount, w)"
| "saveResults userId categories (r # rs) categorizedCount w =
     (case category r of
        None \<Rightarrow> saveResults userId categories rs categorizedCount w
      | Some c \<Rightarrow>
          if c = [] then saveResults userId categories rs categorizedCount w
          else
            (case updateSenderCategory userId (sender r) categories c w of
               (Inl err, w1) \<Rightarrow> (Inl err, w1)
             | (Inr saved, w1) \<Rightarrow> saveResults userId categories rs (Suc categorizedCount) w1))"

definition categorizeNewSenders ::
  "env \<Rightarrow> string list \<Rightarrow> existingSender list \<Rightarrow> (string \<times> message list) list \<Rightarrow> userRow
     \<Rightarrow> categoryRow list \<Rightarrow> string \<Rightarrow> world
     \<Rightarrow> (error + (classification list \<times> nat)) \<times> world" where
  "categorizeNewSenders e ss existingSenders sendersMap user categories userId w =
     (let sendersWithSnippets =
            map (\<lambda>s. (s, snippetsOf sendersMap s)) (sendersToCategorize ss existingSenders)
      in case categorizeWithAi e user sendersWithSnippets categories w of
           (Inl err, w1) \<Rightarrow> (Inl err, w1)
         | (Inr results, w1) \<Rightarrow>
             (case saveResults userId categories results 0 w1 of
                (Inl err, w2) \<Rightarrow> (Inl err, w2)
              | (Inr categorizedCount, w2) \<Rightarrow> (Inr (results, categorizedCount), w2)))"

text \<open>
  One iteration of the fallback loop: first the evidence (the snippets in hand, or a fetch
  from the provider when there are none), then the engine, then the assignment. The result
  says whether the sender was categorized.
\<close>

definition previousEmailsFor ::
  "env \<Rightarrow> (string \<times> message list) list \<Rightarrow> classification \<Rightarrow> world
     \<Rightarrow> (error + string list) \<times> world" where
  "previousEmailsFor e sendersMap r w =
     (if length (snippetsOf sendersMap (sender r)) = 0
      then getPreviousEmails e (sender r) w
      else (Inr (snippetsOf sendersMap (sender r)), w))"

definition categorizeUnknownSender ::
  "env \<Rightarrow> (string \<times> message list) list \<Rightarrow> userRow \<Rightarrow> categoryRow list \<Rightarrow> string
     \<Rightarrow> classification \<Rightarrow> world \<Rightarrow> (error + bool) \<times> world" where
  "categorizeUnknownSender e sendersMap user categories userId r w =
     (case previousEmailsFor e sendersMap r w of
        (Inl err, w1) \<Rightarrow> (Inl err, w1)
      | (Inr previousEmails, w1) \<Rightarrow>
          (let w2 = logCall (EngineSingle (sender r) previousEmails) w1
           in case aiCategorizeSender e user (sender r) previousEmails categories of
                Inl err \<Rightarrow> (Inl err, w2)
              | Inr None \<Rightarrow> (Inr False, w2)
              | Inr (Some a) \<Rightarrow>
                  (case updateSenderCategory userId (sender r) categories (ai_category a) w2 of
                     (Inl err, w3) \<Rightarrow> (Inl err, w3)
                   | (Inr saved, w3) \<Rightarrow> (Inr True, w3))))"

fun categorizeUnknownSendersFrom ::
  "env \<Rightarrow> (string \<times> message list) list \<Rightarrow> userRow \<Rightarrow> categoryRow list \<Rightarrow> string
     \<Rightarrow> classification list \<Rightarrow> nat \<Rightarrow> world \<Rightarrow> (error + nat) \<times> world" where
  "categorizeUnknownSendersFrom e sendersMap user categories userId [] categorizedCount w =
     (Inr categorizedCount, w)"
| "categorizeUnknownSendersFrom e sendersMap user categories userId (r # rs) categorizedCount w =
     (case categorizeUnknownSender e sendersMap user categories userId r w of
        (Inl err, w1) \<Rightarrow> (Inl err, w1)
      | (Inr categorized, w1) \<Rightarrow>
          categorizeUnknownSendersFrom e sendersMap user categories userId rs
            (if categorized then Suc categorizedCount else categorizedCount) w1)"

definition categorizeUnknownSenders ::
  "env \<Rightarrow> classification list \<Rightarrow> (string \<times> message list) list \<Rightarrow> userRow \<Rightarrow> categoryRow list
     \<Rightarrow> string \<Rightarrow> world \<Rightarrow> (error + nat) \<times> world" where
  "categorizeUnknownSenders e unknownSenders sendersMap user categories userId w =
     categorizeUnknownSendersFrom e sendersMap user categories userId unknownSenders 0 w"

definition categorizeSender ::
  "env \<Rightarrow> string \<Rightarrow> userRow \<Rightarrow> world \<Rightarrow> (error + nat option) \<times> world" where
  "categorizeSender e senderAddress user w =
     (let categories = getUserCategories (db w) (user_id user)
      in if length categories = 0 then (Inr None, w)
         else
           (case getPreviousEmails e senderAddress w of
              (Inl err, w1) \<Rightarrow> (Inl err, w1)
            | (Inr previousEmails, w1) \<Rightarrow>
                (let w2 = logCall (EngineSingle senderAddress previousEmails) w1
                 in case aiCategorizeSender e user senderAddress previousEmails categories of
                      Inl err \<Rightarrow> (Inl err, w2)
                    | Inr (Some a) \<Rightarrow>
                        (case updateSenderCategory (user_id user) senderAddress categories
                                (ai_category a) w2 of
                           (Inl err, w3) \<Rightarrow> (Inl err, w3)
                         | (Inr (newCategory, newsletter), w3) \<Rightarrow>
                             (Inr (newsletter_categoryId newsletter), w3))
                    | Inr None \<Rightarrow> (Inr None, w2))))"

definition findAndPrepareSenders ::
  "env \<Rightarrow> date option \<Rightarrow> date option \<Rightarrow> string option \<Rightarrow> world
     \<Rightarrow> (error + (string list \<times> sendersResult \<times> dateRange)) \<times> world" where
  "findAndPrepareSenders e oldest newest pageToken w =
     (let w1 = logCall (ProviderFind pageToken oldest newest) w
      in case findSenders e 20 pageToken oldest newest of
           Inl err \<Rightarrow> (Inl err, w1)
         | Inr found \<Rightarrow>
             (Inr (uniq (map fst (result_senders found)), found, result_dateRange found), w1))"

definition getExistingSenders :: "store \<Rightarrow> string list \<Rightarrow> string \<Rightarrow> existingSender list" where
  "getExistingSenders st ss userId = newsletter_findMany st ss userId"

definition unknownSendersOf :: "classification list \<Rightarrow> existingSender list \<Rightarrow> classification list" where
  "unknownSendersOf results existingSenders =
     filter isUnknownSender
       (results @
        map (\<lambda>s. \<lparr>sender = email s, category = map_option fst (existing_category s)\<rparr>)
          existingSenders)"

text \<open>The last write of a run: the run's date range goes to the user's row.\<close>

definition updateCategorizedEmailTime :: "store \<Rightarrow> userRow \<Rightarrow> dateRange \<Rightarrow> error + store" where
  "updateCategorizedEmailTime st user observed =
     user_update st (user_id user) (orUndefined (newestDate observed))
       (orUndefined (oldestDate observed))"

record runResult =
  categorizedCount :: nat
  run_nextPageToken :: "string option"

definition categorizeSenders ::
  "env \<Rightarrow> string \<Rightarrow> string option \<Rightarrow> world \<Rightarrow> (error + runResult) \<times> world" where
  "categorizeSenders e userId pageToken w =
     (case validateUserAndAiAccess e (db w) userId of
        Inl err \<Rightarrow> (Inl err, w)
      | Inr user \<Rightarrow>
     (case getCategories (db w) userId of
        Inl err \<Rightarrow> (Inl err, w)
      | Inr categories \<Rightarrow>
     (case findAndPrepareSenders e (oldestCategorizedEmailTime user)
             (newestCategorizedEmailTime user) pageToken w of
        (Inl err, w1) \<Rightarrow> (Inl err, w1)
      | (Inr (ss, found, observed), w1) \<Rightarrow>
     (let existingSenders = getExistingSenders (db w1) ss userId
      in case categorizeNewSenders e ss existingSenders (result_senders found) user
                categories userId w1 of
        (Inl err, w2) \<Rightarrow> (Inl err, w2)
      | (Inr (results, initialCount), w2) \<Rightarrow>
     (case categorizeUnknownSenders e (unknownSendersOf results existingSenders)
             (result_senders found) user categories userId w2 of
        (Inl err, w3) \<Rightarrow> (Inl err, w3)
      | (Inr unknownCount, w3) \<Rightarrow>
     (case updateCategorizedEmailTime (db w3) user observed of
        Inl err \<Rightarrow> (Inl err, w3)
      | Inr st \<Rightarrow>
          (Inr \<lparr>categorizedCount = initialCount + unknownCount,
                run_nextPageToken = result_nextPageToken found\<rparr>,
           w3\<lparr>db := st\<rparr>)))))))"

section \<open>A sample run\<close>

text \<open>
  Modelled from the spec: \<^verbatim>\<open>isNewsletterSender\<close> and \<^verbatim>\<open>isReceiptSender\<close> are imported
  from files that are not part of the sources. The spec says that they detect newsletter
  and receipt senders from signals in the address or display name, and that
  "newsletter@list.example" is a newsletter sender and "receipts@store.example" a receipt
  sender. Where a heuristic has to be evaluated on a concrete sender, these two are used;
  the general theorems hold for every pair of heuristics.
\<close>

definition sampleIsNewsletterSender :: "string \<Rightarrow> bool" where
  "sampleIsNewsletterSender s = includesStr s ''newsletter''"

definition sampleIsReceiptSender :: "string \<Rightarrow> bool" where
  "sampleIsReceiptSender s = includesStr s ''receipt''"

text \<open>
  Sample collaborators: the access check finds the user's row; the provider's first page
  holds one sender with one snippet, in the date range 7 to 8, its second page ("p2")
  holds no sender and has no oldest date, and any other page holds two senders; the
  provider cannot be reached for a sender whose address contains "unreachable"; the batch engine asks for more information about
  every sender; the single-sender engine answers "Personal", gives no answer for a sender
  whose address contains "silent" and fails for one whose address contains "overloaded".
\<close>

definition sampleEnv :: env where
  "sampleEnv =
     \<lparr>validateUserAndAiAccess =
        (\<lambda>st userId. case user_find st userId of
                        None \<Rightarrow> Inl (ActionError ''User not found'') | Some u \<Rightarrow> Inr u),
      findSenders = (\<lambda>maxResults pageToken oldest newest.
        if pageToken = None
        then Inr \<lparr>result_senders = [(''x@corp.example'', [\<lparr>snippet = Some ''hello''\<rparr>])],
                  result_nextPageToken = Some ''p2'',
                  result_dateRange = \<lparr>oldestDate = Some 7, newestDate = Some 8\<rparr>\<rparr>
        else if pageToken = Some ''p2''
        then Inr \<lparr>result_senders = [], result_nextPageToken = None,
                  result_dateRange = \<lparr>oldestDate = None, newestDate = Some 12\<rparr>\<rparr>
        else Inr \<lparr>result_senders = [(''x@corp.example'', [\<lparr>snippet = Some ''hello''\<rparr>]),
                                    (''y@corp.example'', [\<lparr>snippet = Some ''hi''\<rparr>])],
                  result_nextPageToken = None,
                  result_dateRange = \<lparr>oldestDate = Some 1, newestDate = Some 3\<rparr>\<rparr>),
      getThreadsFromSender = (\<lambda>s n.
        if includesStr s ''unreachable'' then Inl (ProviderFailure ''timeout'') else Inr []),
      aiCategorizeSenders = (\<lambda>user requested categories.
        Inr (map (\<lambda>(s, snippets). \<lparr>sender = s, category = Some REQUEST_MORE_INFORMATION_CATEGORY\<rparr>)
               requested)),
      aiCategorizeSender = (\<lambda>user s previousEmails categories.
        if includesStr s ''overloaded'' then Inl (EngineFailure ''rate limit'')
        else if includesStr s ''silent'' then Inr None
        else Inr (Some \<lparr>ai_category = ''Personal''\<rparr>)),
      isNewsletterSender = sampleIsNewsletterSender,
      isReceiptSender = sampleIsReceiptSender\<rparr>"

definition sampleUser :: userRow where
  "sampleUser = \<lparr>user_id = ''u1'', oldestCategorizedEmailTime = Some 5,
                  newestCategorizedEmailTime = Some 10\<rparr>"

definition sampleCategories :: "categoryRow list" where
  "sampleCategories =
     [\<lparr>category_id = 1, category_name = ''Newsletter'', category_description = None,
       category_userId = ''u1''\<rparr>,
      \<lparr>category_id = 2, category_name = ''Receipt'', category_description = None,
       category_userId = ''u1''\<rparr>,
      \<lparr>category_id = 3, category_name = ''Personal'', category_description = None,
       category_userId = ''u1''\<rparr>]"

definition sampleStore :: store where
  "sampleStore = \<lparr>categoryRows = sampleCategories, newsletterRows = [],
                   userRows = [sampleUser], nextId = 4\<rparr>"

definition sampleWorld :: world where
  "sampleWorld = \<lparr>db = sampleStore, calls = []\<rparr>"

lemmas sample_defs = sampleEnv_def sampleIsNewsletterSender_def sampleIsReceiptSender_def
  sampleUser_def sampleCategories_def sampleStore_def sampleWorld_def

lemmas name_defs = UNKNOWN_name_def NEWSLETTER_name_def RECEIPT_name_def
  REQUEST_MORE_INFORMATION_CATEGORY_def

lemmas pipeline_defs = categorizeSenders_def getCategories_def getUserCategories_def
  findAndPrepareSenders_def getExistingSenders_def newsletter_findMany_def
  categorizeNewSenders_def categorizeWithAi_def sendersToCategorize_def
  sendersToCategorizeWithAi_def preCategorizeSendersWithStaticRules_def preCategorizeSender_def
  isPersonalEmailSender_def personalEmailDomains_def unknownSendersOf_def isUnknownSender_def
  falsy_def categorizeUnknownSenders_def categorizeUnknownSender_def previousEmailsFor_def
  getPreviousEmails_def
  updateSenderCategory_def category_create_def newsletter_upsert_def newsletter_key_def
  updateCategorizedEmailTime_def user_update_def user_find_def orUndefined_def writeField_def
  mapGet_def mapKeys_def uniq_def snippetsOf_def filterDefined_def logCall_def
  List.map_filter_def

section \<open>The record of external calls\<close>

lemma updateSenderCategory_calls:
  "updateSenderCategory userId s categories categoryName w = (r, w') \<Longrightarrow> calls w' = calls w"
  by (auto simp: updateSenderCategory_def split: option.splits sum.splits prod.splits)

lemma saveResults_calls:
  "saveResults userId categories rs n w = (r, w') \<Longrightarrow> calls w' = calls w"
proof (induction rs arbitrary: n w)
  case Nil
  then show ?case by simp
next
  case (Cons x rs)
  then show ?case
    by (auto split: option.splits sum.splits prod.splits if_splits
          dest: updateSenderCategory_calls)
qed

lemma categorizeWithAi_calls:
  "categorizeWithAi e user m categories w = (r, w') \<Longrightarrow>
   calls w' = calls w @ [EngineBatch (sendersToCategorizeWithAi
                 (preCategorizeSendersWithStaticRules e (mapKeys m)))]"
  by (auto simp: categorizeWithAi_def logCall_def Let_def split: sum.splits)

lemma categorizeNewSenders_calls:
  "categorizeNewSenders e ss existingSenders sendersMap user categories userId w = (r, w') \<Longrightarrow>
   calls w' = calls w @ [EngineBatch (sendersToCategorizeWithAi
                 (preCategorizeSendersWithStaticRules e
                    (mapKeys (map (\<lambda>s. (s, snippetsOf sendersMap s))
                               (sendersToCategorize ss existingSenders)))))]"
  by (auto simp: categorizeNewSenders_def Let_def split: sum.splits prod.splits
        dest!: categorizeWithAi_calls saveResults_calls)

lemma set_uniq: "set (uniq xs) = set xs"
  by (simp add: uniq_def)

lemma distinct_uniq: "distinct (uniq xs)"
  by (simp add: uniq_def)

lemma set_sendersToCategorizeWithAi_pre:
  "set (sendersToCategorizeWithAi (preCategorizeSendersWithStaticRules e ks)) \<subseteq> set ks"
  by (auto simp: sendersToCategorizeWithAi_def preCategorizeSendersWithStaticRules_def
        preCategorizeSender_def split: if_splits)

section \<open>Static rules: order of the rules\<close>

text \<open>
  C7, as amended. A sender that matches both the newsletter heuristic and the receipt
  heuristic is never given "Receipt": the rules are tried in the order personal domain,
  newsletter, receipt and the first match wins. So such a sender gets "Newsletter", unless
  it also matches the personal-domain rule, which comes first and gives "Unknown".
\<close>

theorem C7_static_rule_order:
  assumes "i < length ss" and "isNewsletterSender e (ss ! i)" and "isReceiptSender e (ss ! i)"
  shows "preCategorizeSendersWithStaticRules e ss ! i =
           \<lparr>sender = ss ! i,
            category = Some (if isPersonalEmailSender (ss ! i) then UNKNOWN_name else NEWSLETTER_name)\<rparr>"
  using assms by (simp add: preCategorizeSendersWithStaticRules_def preCategorizeSender_def)

theorem C7_static_rule_order_witness:
  "0 < length [''newsletter-receipts@shop.example'']
   \<and> isNewsletterSender sampleEnv ([''newsletter-receipts@shop.example''] ! 0)
   \<and> isReceiptSender sampleEnv ([''newsletter-receipts@shop.example''] ! 0)
   \<and> preCategorizeSendersWithStaticRules sampleEnv [''newsletter-receipts@shop.example''] ! 0 =
       \<lparr>sender = ''newsletter-receipts@shop.example'', category = Some ''Newsletter''\<rparr>"
proof -
  have n: "isNewsletterSender sampleEnv ([''newsletter-receipts@shop.example''] ! 0)"
    by (simp add: sample_defs)
  have r: "isReceiptSender sampleEnv ([''newsletter-receipts@shop.example''] ! 0)"
    by (simp add: sample_defs)
  have p: "\<not> isPersonalEmailSender ''newsletter-receipts@shop.example''"
    by (simp add: isPersonalEmailSender_def personalEmailDomains_def)
  show ?thesis
    using C7_static_rule_order [of 0 "[''newsletter-receipts@shop.example'']" sampleEnv, OF _ n r] n r p
    by (simp add: NEWSLETTER_name_def)
qed

text \<open>
  The claim as it was stated fails for a sender that matches all three rules: with the
  sample heuristics, a newsletter sender with a receipts address at a personal domain is
  given "Unknown", not "Newsletter".
\<close>

theorem C7_counterexample:
  "isNewsletterSender sampleEnv ''Shop newsletter <receipts@gmail.com>''
   \<and> isReceiptSender sampleEnv ''Shop newsletter <receipts@gmail.com>''
   \<and> preCategorizeSendersWithStaticRules sampleEnv [''Shop newsletter <receipts@gmail.com>''] =
       [\<lparr>sender = ''Shop newsletter <receipts@gmail.com>'', category = Some ''Unknown''\<rparr>]"
  by (simp add: sample_defs preCategorizeSendersWithStaticRules_def preCategorizeSender_def
        isPersonalEmailSender_def personalEmailDomains_def UNKNOWN_name_def)

section \<open>Static rules: the example\<close>

lemma mapKeys_three:
  "mapKeys (map (\<lambda>s. (s, f s)) [''a@gmail.com'', ''newsletter@list.example'', ''receipts@store.example''])
     = [''a@gmail.com'', ''newsletter@list.example'', ''receipts@store.example'']"
  by (simp add: mapKeys_def uniq_def)

text \<open>
  The three senders of the example, for heuristics that recognise the second as a
  newsletter sender and the third as a receipt sender (and nothing else): what the static
  rules return, and what the first pass sends to the batch engine.
\<close>

lemma static_rules_on_example:
  assumes "\<not> isNewsletterSender e ''a@gmail.com''" and "\<not> isReceiptSender e ''a@gmail.com''"
    and "isNewsletterSender e ''newsletter@list.example''"
    and "\<not> isNewsletterSender e ''receipts@store.example''"
    and "isReceiptSender e ''receipts@store.example''"
  shows "preCategorizeSendersWithStaticRules e
           [''a@gmail.com'', ''newsletter@list.example'', ''receipts@store.example''] =
         [\<lparr>sender = ''a@gmail.com'', category = None\<rparr>,
          \<lparr>sender = ''newsletter@list.example'', category = Some NEWSLETTER_name\<rparr>,
          \<lparr>sender = ''receipts@store.example'', category = Some RECEIPT_name\<rparr>]
       \<and> calls (snd (categorizeNewSenders e
                  [''a@gmail.com'', ''newsletter@list.example'', ''receipts@store.example'']
                  [] sendersMap user categories userId w)) =
           calls w @ [EngineBatch [''a@gmail.com'']]"
proof -
  have p: "\<not> isPersonalEmailSender ''a@gmail.com''"
     "\<not> isPersonalEmailSender ''newsletter@list.example''"
     "\<not> isPersonalEmailSender ''receipts@store.example''"
    by (simp_all add: isPersonalEmailSender_def personalEmailDomains_def)
  have pre: "preCategorizeSendersWithStaticRules e
           [''a@gmail.com'', ''newsletter@list.example'', ''receipts@store.example''] =
         [\<lparr>sender = ''a@gmail.com'', category = None\<rparr>,
          \<lparr>sender = ''newsletter@list.example'', category = Some NEWSLETTER_name\<rparr>,
          \<lparr>sender = ''receipts@store.example'', category = Some RECEIPT_name\<rparr>]"
    using assms p
    by (simp add: preCategorizeSendersWithStaticRules_def preCategorizeSender_def)
  have toAi: "sendersToCategorizeWithAi
         [\<lparr>sender = ''a@gmail.com'', category = None\<rparr>,
          \<lparr>sender = ''newsletter@list.example'', category = Some NEWSLETTER_name\<rparr>,
          \<lparr>sender = ''receipts@store.example'', category = Some RECEIPT_name\<rparr>] = [''a@gmail.com'']"
    by (simp add: sendersToCategorizeWithAi_def falsy_def name_defs)
  have stc: "sendersToCategorize
       [''a@gmail.com'', ''newsletter@list.example'', ''receipts@store.example''] [] =
       [''a@gmail.com'', ''newsletter@list.example'', ''receipts@store.example'']"
    by (simp add: sendersToCategorize_def)
  obtain r w' where run: "categorizeNewSenders e
                  [''a@gmail.com'', ''newsletter@list.example'', ''receipts@store.example'']
                  [] sendersMap user categories userId w = (r, w')"
    by (cases "categorizeNewSenders e
                  [''a@gmail.com'', ''newsletter@list.example'', ''receipts@store.example'']
                  [] sendersMap user categories userId w")
  have "calls w' = calls w @ [EngineBatch [''a@gmail.com'']]"
    using categorizeNewSenders_calls [OF run]
    by (simp only: stc mapKeys_three pre toAi)
  then show ?thesis using pre run by simp
qed

text \<open>
  Whatever the two heuristics are, the bare address is never given "Unknown". Written
  with its display name, the same address is given "Unknown" and is not sent to the batch
  engine.
\<close>

lemma bare_address_never_unknown:
  "category (preCategorizeSender e ''a@gmail.com'') \<noteq> Some UNKNOWN_name"
  by (simp add: preCategorizeSender_def isPersonalEmailSender_def personalEmailDomains_def
        name_defs)

lemma personal_sender_deferred:
  "preCategorizeSendersWithStaticRules e [''A <a@gmail.com>''] =
     [\<lparr>sender = ''A <a@gmail.com>'', category = Some UNKNOWN_name\<rparr>]
   \<and> sendersToCategorizeWithAi (preCategorizeSendersWithStaticRules e [''A <a@gmail.com>'']) = []"
  by (simp add: preCategorizeSendersWithStaticRules_def preCategorizeSender_def
        isPersonalEmailSender_def personalEmailDomains_def sendersToCategorizeWithAi_def
        falsy_def name_defs)

text \<open>
  C3. The claim is that the static rules give "a@gmail.com" the category "Unknown",
  because its domain is a large consumer mail provider, as the comment above the rule
  says of senders at gmail.com. The rule looks for the domain followed by ">", which the
  bare address does not have: the static rules leave "a@gmail.com" without a category,
  and so it is sent to the batch engine. The second sender gets "Newsletter" and the third
  "Receipt", as claimed. The same address written with its display name gets "Unknown".
\<close>

theorem C3_bare_address_left_unresolved:
  "preCategorizeSendersWithStaticRules sampleEnv
     [''a@gmail.com'', ''newsletter@list.example'', ''receipts@store.example''] =
     [\<lparr>sender = ''a@gmail.com'', category = None\<rparr>,
      \<lparr>sender = ''newsletter@list.example'', category = Some ''Newsletter''\<rparr>,
      \<lparr>sender = ''receipts@store.example'', category = Some ''Receipt''\<rparr>]
   \<and> category (preCategorizeSendersWithStaticRules sampleEnv
         [''a@gmail.com'', ''newsletter@list.example'', ''receipts@store.example''] ! 0)
       \<noteq> Some UNKNOWN_name
   \<and> calls (snd (categorizeNewSenders sampleEnv
                  [''a@gmail.com'', ''newsletter@list.example'', ''receipts@store.example'']
                  [] [] sampleUser sampleCategories ''u1'' sampleWorld)) =
       [EngineBatch [''a@gmail.com'']]
   \<and> preCategorizeSendersWithStaticRules sampleEnv [''A <a@gmail.com>''] =
       [\<lparr>sender = ''A <a@gmail.com>'', category = Some ''Unknown''\<rparr>]"
proof -
  have a: "\<not> isNewsletterSender sampleEnv ''a@gmail.com''" "\<not> isReceiptSender sampleEnv ''a@gmail.com''"
    by (simp_all add: sampleEnv_def sampleIsNewsletterSender_def sampleIsReceiptSender_def)
  have n: "isNewsletterSender sampleEnv ''newsletter@list.example''"
    by (simp add: sampleEnv_def sampleIsNewsletterSender_def)
  have r: "\<not> isNewsletterSender sampleEnv ''receipts@store.example''"
      "isReceiptSender sampleEnv ''receipts@store.example''"
    by (simp_all add: sampleEnv_def sampleIsNewsletterSender_def sampleIsReceiptSender_def)
  have w: "calls sampleWorld = []" by (simp add: sampleWorld_def)
  have d: "preCategorizeSendersWithStaticRules sampleEnv [''A <a@gmail.com>''] =
       [\<lparr>sender = ''A <a@gmail.com>'', category = Some ''Unknown''\<rparr>]"
    using personal_sender_deferred [of sampleEnv] by (simp add: name_defs)
  show ?thesis
    using static_rules_on_example [OF a n r, of "[]" sampleUser sampleCategories "''u1''" sampleWorld]
      w d
    by (simp add: name_defs)
qed

section \<open>Senders with an assignment are not classified again in the batch\<close>

lemma email_getExistingSenders:
  "email ` set (getExistingSenders st ss userId) =
     {s \<in> set ss. list_ex (newsletter_key s userId) (newsletterRows st)}"
  by (auto simp: getExistingSenders_def newsletter_findMany_def newsletter_key_def
        list_ex_iff image_iff)

lemma set_sendersToCategorize:
  "set (sendersToCategorize ss existingSenders) = set ss - email ` set existingSenders"
  by (auto simp: sendersToCategorize_def list_ex_iff)

text \<open>
  C8. A sender that already has a persisted assignment for the user, whatever its
  category, is not in the list that \<^verbatim>\<open>categorizeNewSenders\<close> sends to the batch engine:
  the run makes exactly one batch call, and the sender is not in it.
\<close>

theorem C8_existing_senders_not_sent_to_batch:
  assumes "list_ex (newsletter_key s userId) (newsletterRows (db w))"
  shows "\<exists>xs. calls (snd (categorizeNewSenders e ss (getExistingSenders (db w) ss userId)
                  sendersMap user categories userId w)) = calls w @ [EngineBatch xs]
              \<and> s \<notin> set xs"
proof -
  let ?ex = "getExistingSenders (db w) ss userId"
  let ?keys = "mapKeys (map (\<lambda>s. (s, snippetsOf sendersMap s)) (sendersToCategorize ss ?ex))"
  let ?xs = "sendersToCategorizeWithAi (preCategorizeSendersWithStaticRules e ?keys)"
  obtain r w' where run: "categorizeNewSenders e ss ?ex sendersMap user categories userId w = (r, w')"
    by (cases "categorizeNewSenders e ss ?ex sendersMap user categories userId w")
  have c: "calls w' = calls w @ [EngineBatch ?xs]"
    by (rule categorizeNewSenders_calls [OF run])
  have "set ?xs \<subseteq> set ?keys"
    by (rule set_sendersToCategorizeWithAi_pre)
  also have "set ?keys = set (sendersToCategorize ss ?ex)"
    by (simp add: mapKeys_def set_uniq image_image)
  also have "\<dots> = set ss - email ` set ?ex"
    by (rule set_sendersToCategorize)
  finally have sub: "set ?xs \<subseteq> set ss - email ` set ?ex" .
  have "s \<notin> set ?xs"
  proof
    assume "s \<in> set ?xs"
    with sub have "s \<in> set ss" and "s \<notin> email ` set ?ex" by auto
    then show False using assms by (simp add: email_getExistingSenders)
  qed
  with c run show ?thesis by auto
qed

theorem C8_existing_senders_not_sent_to_batch_witness:
  "list_ex (newsletter_key ''x@corp.example'' ''u1'')
     (newsletterRows (db \<lparr>db = sampleStore\<lparr>newsletterRows :=
        [\<lparr>newsletter_email = ''x@corp.example'', newsletter_userId = ''u1'',
          newsletter_categoryId = Some 1\<rparr>]\<rparr>, calls = []\<rparr>))
   \<and> (\<exists>xs. calls (snd (categorizeNewSenders sampleEnv [''x@corp.example'', ''y@corp.example'']
                  (getExistingSenders (db \<lparr>db = sampleStore\<lparr>newsletterRows :=
                        [\<lparr>newsletter_email = ''x@corp.example'', newsletter_userId = ''u1'',
                          newsletter_categoryId = Some 1\<rparr>]\<rparr>, calls = []\<rparr>)
                     [''x@corp.example'', ''y@corp.example''] ''u1'')
                  [] sampleUser sampleCategories ''u1''
                  \<lparr>db = sampleStore\<lparr>newsletterRows :=
                        [\<lparr>newsletter_email = ''x@corp.example'', newsletter_userId = ''u1'',
                          newsletter_categoryId = Some 1\<rparr>]\<rparr>, calls = []\<rparr>))
              = [EngineBatch xs]
            \<and> ''x@corp.example'' \<notin> set xs)"
proof -
  let ?w = "\<lparr>db = sampleStore\<lparr>newsletterRows :=
        [\<lparr>newsletter_email = ''x@corp.example'', newsletter_userId = ''u1'',
          newsletter_categoryId = Some 1\<rparr>]\<rparr>, calls = []\<rparr>"
  have h: "list_ex (newsletter_key ''x@corp.example'' ''u1'') (newsletterRows (db ?w))"
    by (simp add: newsletter_key_def)
  show ?thesis
    using C8_existing_senders_not_sent_to_batch [OF h, of sampleEnv
        "[''x@corp.example'', ''y@corp.example'']" "[]" sampleUser sampleCategories] h
    by simp
qed

section \<open>The inputs of the fallback classifier\<close>

text \<open>
  The first pass and the whole run on the sample world. The provider finds one sender,
  "x@corp.example", that no static rule matches; the batch engine asks for more information.
\<close>

lemma sample_first_pass:
  "categorizeNewSenders sampleEnv [''x@corp.example''] []
     [(''x@corp.example'', [\<lparr>snippet = Some ''hello''\<rparr>])] sampleUser sampleCategories ''u1''
     sampleWorld =
   (Inr ([\<lparr>sender = ''x@corp.example'', category = None\<rparr>,
          \<lparr>sender = ''x@corp.example'', category = Some ''request more information''\<rparr>], 1),
    \<lparr>db = sampleStore
        \<lparr>categoryRows := sampleCategories @
           [\<lparr>category_id = 4, category_name = ''request more information'',
             category_description = None, category_userId = ''u1''\<rparr>],
         newsletterRows := [\<lparr>newsletter_email = ''x@corp.example'', newsletter_userId = ''u1'',
                             newsletter_categoryId = Some 4\<rparr>],
         nextId := 5\<rparr>,
      calls = [EngineBatch [''x@corp.example'']]\<rparr>)"
  by (simp add: pipeline_defs sample_defs name_defs Let_def)

text \<open>
  Every result of the first pass that is unresolved, "Unknown" or "request more
  information" is an input of the fallback classifier.
\<close>

lemma unknownSendersOf_covers_results:
  "r \<in> set results \<Longrightarrow> isUnknownSender r \<Longrightarrow> r \<in> set (unknownSendersOf results existingSenders)"
  by (simp add: unknownSendersOf_def)

text \<open>
  A sender that no static rule matched has two entries in the results of the first pass,
  its static entry without a category and the engine's entry. The static entry always goes
  to the fallback classifier; when the engine's entry is unresolved as well, the sender is
  there twice.
\<close>

lemma filter_nonempty: "x \<in> set xs \<Longrightarrow> P x \<Longrightarrow> 1 \<le> length (filter P xs)"
  by (induction xs) auto

lemma unknownSendersOf_repeats:
  assumes "s \<in> set (sendersToCategorizeWithAi (preCategorizeSendersWithStaticRules e ks))"
    and "r \<in> set aiResults" and "sender r = s" and "isUnknownSender r"
  shows "2 \<le> length (filter (\<lambda>x. sender x = s)
                 (unknownSendersOf (preCategorizeSendersWithStaticRules e ks @ aiResults)
                    existingSenders))"
proof -
  let ?pre = "preCategorizeSendersWithStaticRules e ks"
  let ?P = "\<lambda>x. isUnknownSender x \<and> sender x = s"
  from assms(1) obtain p where p: "p \<in> set ?pre" "falsy (category p)" "sender p = s"
    by (auto simp: sendersToCategorizeWithAi_def)
  then have "?P p" by (simp add: isUnknownSender_def)
  with p(1) have a: "1 \<le> length (filter ?P ?pre)"
    by (rule filter_nonempty)
  from assms(3,4) have "?P r" by simp
  with assms(2) have b: "1 \<le> length (filter ?P aiResults)"
    by (rule filter_nonempty)
  show ?thesis using a b by (simp add: unknownSendersOf_def)
qed

lemma sample_run:
  "categorizeSenders sampleEnv ''u1'' None sampleWorld =
   (Inr \<lparr>categorizedCount = 3, run_nextPageToken = Some ''p2''\<rparr>,
    \<lparr>db = \<lparr>categoryRows = sampleCategories @
               [\<lparr>category_id = 4, category_name = ''request more information'',
                 category_description = None, category_userId = ''u1''\<rparr>],
            newsletterRows = [\<lparr>newsletter_email = ''x@corp.example'', newsletter_userId = ''u1'',
                                newsletter_categoryId = Some 3\<rparr>],
            userRows = [\<lparr>user_id = ''u1'', oldestCategorizedEmailTime = Some 7,
                          newestCategorizedEmailTime = Some 8\<rparr>],
            nextId = 5\<rparr>,
      calls = [ProviderFind None (Some 5) (Some 10), EngineBatch [''x@corp.example''],
               EngineSingle ''x@corp.example'' [''hello''],
               EngineSingle ''x@corp.example'' [''hello'']]\<rparr>)"
  by (simp add: pipeline_defs sample_defs name_defs Let_def)

lemma sample_run_second_page:
  "categorizeSenders sampleEnv ''u1'' (Some ''p2'') sampleWorld =
   (Inr \<lparr>categorizedCount = 0, run_nextPageToken = None\<rparr>,
    \<lparr>db = sampleStore\<lparr>userRows := [\<lparr>user_id = ''u1'', oldestCategorizedEmailTime = Some 5,
                          newestCategorizedEmailTime = Some 12\<rparr>]\<rparr>,
      calls = [ProviderFind (Some ''p2'') (Some 5) (Some 10), EngineBatch []]\<rparr>)"
  by (simp add: pipeline_defs sample_defs name_defs Let_def)

text \<open>
  C2. The claim is that a sender left unresolved by the static rules and the batch engine
  is an input of the fallback classifier exactly once. On the sample world the sender
  "x@corp.example" is in the list twice, and the run calls the single-sender engine twice
  for it.
\<close>

theorem C2_fallback_input_repeats_sender:
  "fst (categorizeNewSenders sampleEnv [''x@corp.example''] []
         [(''x@corp.example'', [\<lparr>snippet = Some ''hello''\<rparr>])] sampleUser sampleCategories ''u1''
         sampleWorld) =
     Inr ([\<lparr>sender = ''x@corp.example'', category = None\<rparr>,
           \<lparr>sender = ''x@corp.example'', category = Some ''request more information''\<rparr>], 1)
   \<and> map sender (unknownSendersOf
         [\<lparr>sender = ''x@corp.example'', category = None\<rparr>,
          \<lparr>sender = ''x@corp.example'', category = Some ''request more information''\<rparr>] []) =
       [''x@corp.example'', ''x@corp.example'']
   \<and> calls (snd (categorizeSenders sampleEnv ''u1'' None sampleWorld)) =
       [ProviderFind None (Some 5) (Some 10), EngineBatch [''x@corp.example''],
        EngineSingle ''x@corp.example'' [''hello''],
        EngineSingle ''x@corp.example'' [''hello'']]"
proof -
  have u: "map sender (unknownSendersOf
         [\<lparr>sender = ''x@corp.example'', category = None\<rparr>,
          \<lparr>sender = ''x@corp.example'', category = Some ''request more information''\<rparr>] []) =
       [''x@corp.example'', ''x@corp.example'']"
    by (simp add: unknownSendersOf_def isUnknownSender_def falsy_def name_defs)
  show ?thesis
    by (simp only: sample_first_pass sample_run u fst_conv snd_conv world.simps simp_thms)
qed

section \<open>A user without categories\<close>

text \<open>
  C9. When the user has no category, \<^verbatim>\<open>categorizeSender\<close> returns no category id and
  leaves the world as it was: no call to the engine or the provider is recorded and nothing
  is written. The batch entry point returns an error in that case, which is the typed
  error "No categories found" whenever the access check succeeds.
\<close>

theorem C9_single_sender_without_categories:
  assumes "getUserCategories (db w) (user_id user) = []"
  shows "categorizeSender e senderAddress user w = (Inr None, w)
       \<and> (\<exists>err. categorizeSenders e (user_id user) pageToken w = (Inl err, w))
       \<and> (\<forall>u. validateUserAndAiAccess e (db w) (user_id user) = Inr u \<longrightarrow>
            categorizeSenders e (user_id user) pageToken w =
              (Inl (ActionError ''No categories found''), w))"
  using assms
  by (auto simp: categorizeSender_def categorizeSenders_def getCategories_def Let_def
        split: sum.splits)

theorem C9_single_sender_without_categories_witness:
  "getUserCategories (db \<lparr>db = sampleStore\<lparr>categoryRows := []\<rparr>, calls = []\<rparr>) (user_id sampleUser) = []
   \<and> categorizeSender sampleEnv ''x@corp.example'' sampleUser
        \<lparr>db = sampleStore\<lparr>categoryRows := []\<rparr>, calls = []\<rparr> =
       (Inr None, \<lparr>db = sampleStore\<lparr>categoryRows := []\<rparr>, calls = []\<rparr>)
   \<and> categorizeSenders sampleEnv ''u1'' None \<lparr>db = sampleStore\<lparr>categoryRows := []\<rparr>, calls = []\<rparr> =
       (Inl (ActionError ''No categories found''),
        \<lparr>db = sampleStore\<lparr>categoryRows := []\<rparr>, calls = []\<rparr>)"
proof -
  let ?w = "\<lparr>db = sampleStore\<lparr>categoryRows := []\<rparr>, calls = []\<rparr>"
  have h: "getUserCategories (db ?w) (user_id sampleUser) = []"
    by (simp add: getUserCategories_def)
  have v: "validateUserAndAiAccess sampleEnv (db ?w) (user_id sampleUser) = Inr sampleUser"
    by (simp add: sampleEnv_def user_find_def sampleStore_def sampleUser_def)
  have i: "user_id sampleUser = ''u1''" by (simp add: sampleUser_def)
  show ?thesis
    using C9_single_sender_without_categories [OF h, of sampleEnv "''x@corp.example''" None] h v i
    by simp
qed

section \<open>The watermark\<close>

text \<open>Only the last write of a run touches the table of users.\<close>

lemma updateSenderCategory_userRows:
  "updateSenderCategory userId s categories categoryName w = (r, w') \<Longrightarrow>
   userRows (db w') = userRows (db w)"
  by (auto simp: updateSenderCategory_def category_create_def newsletter_upsert_def Let_def
        split: option.splits sum.splits prod.splits if_splits)

lemma saveResults_userRows:
  "saveResults userId categories rs n w = (r, w') \<Longrightarrow> userRows (db w') = userRows (db w)"
proof (induction rs arbitrary: n w)
  case Nil
  then show ?case by simp
next
  case (Cons x rs)
  then show ?case
    by (auto split: option.splits sum.splits prod.splits if_splits
          dest: updateSenderCategory_userRows)
qed

lemma categorizeNewSenders_userRows:
  "categorizeNewSenders e ss existingSenders sendersMap user categories userId w = (r, w') \<Longrightarrow>
   userRows (db w') = userRows (db w)"
  by (auto simp: categorizeNewSenders_def categorizeWithAi_def logCall_def Let_def
        split: sum.splits prod.splits dest!: saveResults_userRows)

lemma getPreviousEmails_db:
  "getPreviousEmails e s w = (r, w') \<Longrightarrow> db w' = db w"
  by (auto simp: getPreviousEmails_def logCall_def Let_def split: sum.splits)

lemma categorizeUnknownSender_userRows:
  "categorizeUnknownSender e sendersMap user categories userId x w = (r, w') \<Longrightarrow>
   userRows (db w') = userRows (db w)"
  by (auto simp: categorizeUnknownSender_def previousEmailsFor_def logCall_def Let_def
        split: sum.splits prod.splits option.splits if_splits
        dest!: getPreviousEmails_db updateSenderCategory_userRows)

lemma categorizeUnknownSendersFrom_userRows:
  "categorizeUnknownSendersFrom e sendersMap user categories userId xs n w = (r, w') \<Longrightarrow>
   userRows (db w') = userRows (db w)"
proof (induction xs arbitrary: n w)
  case Nil
  then show ?case by simp
next
  case (Cons x xs)
  then show ?case
    by (auto split: sum.splits prod.splits dest!: categorizeUnknownSender_userRows)
qed

text \<open>The update of a user's row, read back.\<close>

lemma find_map_user:
  assumes "\<And>u. user_id (f u) = user_id u"
  shows "find (\<lambda>u. user_id u = i) (map f us) = map_option f (find (\<lambda>u. user_id u = i) us)"
  using assms by (induction us) auto

lemma user_update_find:
  assumes "user_update st userId newest oldest = Inr st'"
    and "user_find st userId = Some u"
  shows "user_find st' userId =
           Some (u\<lparr>newestCategorizedEmailTime := writeField newest (newestCategorizedEmailTime u),
                   oldestCategorizedEmailTime := writeField oldest (oldestCategorizedEmailTime u)\<rparr>)"
proof -
  let ?f = "\<lambda>u. if user_id u = userId
                  then u\<lparr>newestCategorizedEmailTime := writeField newest (newestCategorizedEmailTime u),
                         oldestCategorizedEmailTime := writeField oldest (oldestCategorizedEmailTime u)\<rparr>
                  else u"
  have st': "userRows st' = map ?f (userRows st)"
    using assms(1) by (auto simp: user_update_def split: if_splits)
  have "user_id u = userId"
    using assms(2) by (auto simp: user_find_def dest: find_Some_iff [THEN iffD1])
  moreover have "find (\<lambda>u. user_id u = userId) (map ?f (userRows st)) =
          map_option ?f (find (\<lambda>u. user_id u = userId) (userRows st))"
    by (rule find_map_user) simp
  ultimately show ?thesis using assms(2) st' by (simp add: user_find_def)
qed

text \<open>
  A run that returns a result has passed the access check and the discovery, and its last
  write put the discovered date range into a store whose user table was still the one the
  run started with.
\<close>

lemma categorizeSenders_watermark:
  assumes "categorizeSenders e userId pageToken w = (Inr res, w')"
  shows "\<exists>user found st3.
           validateUserAndAiAccess e (db w) userId = Inr user
         \<and> findSenders e 20 pageToken (oldestCategorizedEmailTime user)
               (newestCategorizedEmailTime user) = Inr found
         \<and> userRows st3 = userRows (db w)
         \<and> updateCategorizedEmailTime st3 user (result_dateRange found) = Inr (db w')"
  using assms
  apply (simp add: categorizeSenders_def Let_def split: sum.splits prod.splits)
  apply (auto simp: findAndPrepareSenders_def logCall_def categorizeUnknownSenders_def Let_def split: sum.splits
       dest!: categorizeNewSenders_userRows categorizeUnknownSendersFrom_userRows)
  done

text \<open>
  C10. In the last write of a run that returns a result, each bound is treated on its own:
  a bound that is null in the run's date range leaves the stored field of the user's row
  as it was, and a bound that is not null is written.
\<close>

theorem C10_null_bound_leaves_field:
  assumes "categorizeSenders e userId pageToken w = (Inr res, w')"
    and "validateUserAndAiAccess e (db w) userId = Inr user"
    and "findSenders e 20 pageToken (oldestCategorizedEmailTime user)
           (newestCategorizedEmailTime user) = Inr found"
    and "user_find (db w) (user_id user) = Some u"
  shows "\<exists>u'. user_find (db w') (user_id user) = Some u'
       \<and> (oldestDate (result_dateRange found) = None \<longrightarrow>
            oldestCategorizedEmailTime u' = oldestCategorizedEmailTime u)
       \<and> (newestDate (result_dateRange found) = None \<longrightarrow>
            newestCategorizedEmailTime u' = newestCategorizedEmailTime u)
       \<and> (\<forall>d. oldestDate (result_dateRange found) = Some d \<longrightarrow>
            oldestCategorizedEmailTime u' = Some d)
       \<and> (\<forall>d. newestDate (result_dateRange found) = Some d \<longrightarrow>
            newestCategorizedEmailTime u' = Some d)"
proof -
  from categorizeSenders_watermark [OF assms(1)] assms(2,3)
  obtain st3 where fr: "userRows st3 = userRows (db w)"
    and up: "updateCategorizedEmailTime st3 user (result_dateRange found) = Inr (db w')"
    by auto
  have "user_find st3 (user_id user) = Some u"
    using assms(4) fr by (simp add: user_find_def)
  from user_update_find [OF up [unfolded updateCategorizedEmailTime_def] this]
  show ?thesis
    by (auto simp: orUndefined_def writeField_def)
qed

theorem C10_null_bound_leaves_field_witness:
  "categorizeSenders sampleEnv ''u1'' (Some ''p2'') sampleWorld =
     (Inr \<lparr>categorizedCount = 0, run_nextPageToken = None\<rparr>,
      \<lparr>db = sampleStore\<lparr>userRows := [\<lparr>user_id = ''u1'', oldestCategorizedEmailTime = Some 5,
                          newestCategorizedEmailTime = Some 12\<rparr>]\<rparr>,
        calls = [ProviderFind (Some ''p2'') (Some 5) (Some 10), EngineBatch []]\<rparr>)
   \<and> validateUserAndAiAccess sampleEnv (db sampleWorld) ''u1'' = Inr sampleUser
   \<and> findSenders sampleEnv 20 (Some ''p2'') (oldestCategorizedEmailTime sampleUser)
        (newestCategorizedEmailTime sampleUser) =
       Inr \<lparr>result_senders = [], result_nextPageToken = None,
            result_dateRange = \<lparr>oldestDate = None, newestDate = Some 12\<rparr>\<rparr>
   \<and> user_find (db sampleWorld) (user_id sampleUser) = Some sampleUser
   \<and> (\<exists>u'. user_find (sampleStore\<lparr>userRows := [\<lparr>user_id = ''u1'', oldestCategorizedEmailTime = Some 5,
                          newestCategorizedEmailTime = Some 12\<rparr>]\<rparr>) (user_id sampleUser) = Some u'
          \<and> oldestCategorizedEmailTime u' = oldestCategorizedEmailTime sampleUser
          \<and> newestCategorizedEmailTime u' = Some 12)"
proof -
  have v: "validateUserAndAiAccess sampleEnv (db sampleWorld) ''u1'' = Inr sampleUser"
    by (simp add: sampleEnv_def sampleWorld_def sampleStore_def sampleUser_def user_find_def)
  have f: "findSenders sampleEnv 20 (Some ''p2'') (oldestCategorizedEmailTime sampleUser)
        (newestCategorizedEmailTime sampleUser) =
       Inr \<lparr>result_senders = [], result_nextPageToken = None,
            result_dateRange = \<lparr>oldestDate = None, newestDate = Some 12\<rparr>\<rparr>"
    by (simp add: sampleEnv_def)
  have s: "user_find (db sampleWorld) (user_id sampleUser) = Some sampleUser"
    by (simp add: sampleWorld_def sampleStore_def sampleUser_def user_find_def)
  show ?thesis
    using C10_null_bound_leaves_field [OF sample_run_second_page v f s]
      sample_run_second_page v f s
    by simp
qed

text \<open>
  C1, as amended. After the last write of a run whose date range has both bounds, the
  stored oldest is the observed oldest and the stored newest is the observed newest: the
  observed range replaces the stored one. The stored oldest is the minimum of the two
  exactly when the observed oldest is not above the stored one (or none was stored), and
  the stored newest is the maximum exactly when the observed newest is not below the stored
  one (or none was stored).
\<close>

theorem C1_watermark_overwritten:
  assumes "categorizeSenders e userId pageToken w = (Inr res, w')"
    and "validateUserAndAiAccess e (db w) userId = Inr user"
    and "findSenders e 20 pageToken (oldestCategorizedEmailTime user)
           (newestCategorizedEmailTime user) = Inr found"
    and "user_find (db w) (user_id user) = Some u"
    and "oldestDate (result_dateRange found) = Some observedOldest"
    and "newestDate (result_dateRange found) = Some observedNewest"
  shows "\<exists>u'. user_find (db w') (user_id user) = Some u'
       \<and> oldestCategorizedEmailTime u' = Some observedOldest
       \<and> newestCategorizedEmailTime u' = Some observedNewest
       \<and> (oldestCategorizedEmailTime u' =
            Some (case oldestCategorizedEmailTime u of
                    None \<Rightarrow> observedOldest
                  | Some storedOldest \<Rightarrow> min storedOldest observedOldest))
          = (case oldestCategorizedEmailTime u of
               None \<Rightarrow> True | Some storedOldest \<Rightarrow> observedOldest \<le> storedOldest)
       \<and> (newestCategorizedEmailTime u' =
            Some (case newestCategorizedEmailTime u of
                    None \<Rightarrow> observedNewest
                  | Some storedNewest \<Rightarrow> max storedNewest observedNewest))
          = (case newestCategorizedEmailTime u of
               None \<Rightarrow> True | Some storedNewest \<Rightarrow> storedNewest \<le> observedNewest)"
proof -
  from categorizeSenders_watermark [OF assms(1)] assms(2,3)
  obtain st3 where fr: "userRows st3 = userRows (db w)"
    and up: "updateCategorizedEmailTime st3 user (result_dateRange found) = Inr (db w')"
    by auto
  have "user_find st3 (user_id user) = Some u"
    using assms(4) fr by (simp add: user_find_def)
  from user_update_find [OF up [unfolded updateCategorizedEmailTime_def] this] assms(5,6)
  show ?thesis
    by (auto simp: orUndefined_def writeField_def split: option.splits)
qed

theorem C1_watermark_overwritten_witness:
  "(\<exists>res w'. categorizeSenders sampleEnv ''u1'' None sampleWorld = (Inr res, w')
      \<and> (\<exists>u'. user_find (db w') (user_id sampleUser) = Some u'
            \<and> oldestCategorizedEmailTime u' = Some 7
            \<and> newestCategorizedEmailTime u' = Some 8
            \<and> oldestCategorizedEmailTime u' \<noteq> Some (min 5 7)
            \<and> newestCategorizedEmailTime u' \<noteq> Some (max 10 8)))
   \<and> validateUserAndAiAccess sampleEnv (db sampleWorld) ''u1'' = Inr sampleUser
   \<and> findSenders sampleEnv 20 None (oldestCategorizedEmailTime sampleUser)
        (newestCategorizedEmailTime sampleUser) =
       Inr \<lparr>result_senders = [(''x@corp.example'', [\<lparr>snippet = Some ''hello''\<rparr>])],
            result_nextPageToken = Some ''p2'',
            result_dateRange = \<lparr>oldestDate = Some 7, newestDate = Some 8\<rparr>\<rparr>
   \<and> user_find (db sampleWorld) (user_id sampleUser) = Some sampleUser"
proof -
  have v: "validateUserAndAiAccess sampleEnv (db sampleWorld) ''u1'' = Inr sampleUser"
    by (simp add: sampleEnv_def sampleWorld_def sampleStore_def sampleUser_def user_find_def)
  have f: "findSenders sampleEnv 20 None (oldestCategorizedEmailTime sampleUser)
        (newestCategorizedEmailTime sampleUser) =
       Inr \<lparr>result_senders = [(''x@corp.example'', [\<lparr>snippet = Some ''hello''\<rparr>])],
            result_nextPageToken = Some ''p2'',
            result_dateRange = \<lparr>oldestDate = Some 7, newestDate = Some 8\<rparr>\<rparr>"
    by (simp add: sampleEnv_def)
  have s: "user_find (db sampleWorld) (user_id sampleUser) = Some sampleUser"
    by (simp add: sampleWorld_def sampleStore_def sampleUser_def user_find_def)
  have o: "oldestCategorizedEmailTime sampleUser = Some 5"
     "newestCategorizedEmailTime sampleUser = Some 10"
    by (simp_all add: sampleUser_def)
  show ?thesis
    using C1_watermark_overwritten [OF sample_run v f s, of 7 8] f v s o
    by (auto simp: sample_run)
qed

text \<open>
  On the sample world the stored range is 5 to 10 and the run observes 7 to 8. After the
  run the stored range is 7 to 8: the oldest went up and the newest went down.
\<close>

theorem C1_counterexample:
  "user_find (db sampleWorld) ''u1'' =
     Some \<lparr>user_id = ''u1'', oldestCategorizedEmailTime = Some 5,
           newestCategorizedEmailTime = Some 10\<rparr>
   \<and> map_sum id result_dateRange (findSenders sampleEnv 20 None (Some 5) (Some 10)) =
       Inr \<lparr>oldestDate = Some 7, newestDate = Some 8\<rparr>
   \<and> user_find (db (snd (categorizeSenders sampleEnv ''u1'' None sampleWorld))) ''u1'' =
       Some \<lparr>user_id = ''u1'', oldestCategorizedEmailTime = Some 7,
             newestCategorizedEmailTime = Some 8\<rparr>"
proof -
  have a: "user_find (db sampleWorld) ''u1'' =
     Some \<lparr>user_id = ''u1'', oldestCategorizedEmailTime = Some 5,
           newestCategorizedEmailTime = Some 10\<rparr>"
    by (simp add: user_find_def sampleWorld_def sampleStore_def sampleUser_def)
  have b: "map_sum id result_dateRange (findSenders sampleEnv 20 None (Some 5) (Some 10)) =
       Inr \<lparr>oldestDate = Some 7, newestDate = Some 8\<rparr>"
    by (simp add: sampleEnv_def)
  have c: "user_find (db (snd (categorizeSenders sampleEnv ''u1'' None sampleWorld))) ''u1'' =
       Some \<lparr>user_id = ''u1'', oldestCategorizedEmailTime = Some 7,
             newestCategorizedEmailTime = Some 8\<rparr>"
    by (simp add: sample_run user_find_def)
  from a b c show ?thesis by (intro conjI)
qed

section \<open>A category that already exists\<close>

text \<open>
  C5, as amended. When the category is not in the catalog that was passed in and a
  category of that name already exists for the user, the creation fails and the
  duplicate-name conflict is what the caller gets: the existing category is not read
  again, no assignment is written, and the world is as it was.
\<close>

theorem C5_conflict_reaches_caller:
  assumes "find (\<lambda>c. category_name c = categoryName) categories = None"
    and "list_ex (\<lambda>c. category_name c = categoryName \<and> category_userId c = userId)
           (categoryRows (db w))"
  shows "updateSenderCategory userId s categories categoryName w = (Inl UniqueConstraintViolation, w)"
  using assms by (simp add: updateSenderCategory_def category_create_def)

theorem C5_conflict_reaches_caller_witness:
  "find (\<lambda>c. category_name c = ''Travel'') sampleCategories = None
   \<and> list_ex (\<lambda>c. category_name c = ''Travel'' \<and> category_userId c = ''u1'')
        (categoryRows (db \<lparr>db = sampleStore\<lparr>categoryRows := sampleCategories @
           [\<lparr>category_id = 4, category_name = ''Travel'', category_description = None,
             category_userId = ''u1''\<rparr>]\<rparr>, calls = []\<rparr>))
   \<and> updateSenderCategory ''u1'' ''y@corp.example'' sampleCategories ''Travel''
        \<lparr>db = sampleStore\<lparr>categoryRows := sampleCategories @
           [\<lparr>category_id = 4, category_name = ''Travel'', category_description = None,
             category_userId = ''u1''\<rparr>]\<rparr>, calls = []\<rparr> =
       (Inl UniqueConstraintViolation,
        \<lparr>db = sampleStore\<lparr>categoryRows := sampleCategories @
           [\<lparr>category_id = 4, category_name = ''Travel'', category_description = None,
             category_userId = ''u1''\<rparr>]\<rparr>, calls = []\<rparr>)"
proof -
  let ?w = "\<lparr>db = sampleStore\<lparr>categoryRows := sampleCategories @
           [\<lparr>category_id = 4, category_name = ''Travel'', category_description = None,
             category_userId = ''u1''\<rparr>]\<rparr>, calls = []\<rparr>"
  have a: "find (\<lambda>c. category_name c = ''Travel'') sampleCategories = None"
    by (simp add: sampleCategories_def)
  have b: "list_ex (\<lambda>c. category_name c = ''Travel'' \<and> category_userId c = ''u1'')
             (categoryRows (db ?w))"
    by simp
  show ?thesis
    using C5_conflict_reaches_caller [OF a b, of "''y@corp.example''"] a b by simp
qed

text \<open>
  On the sample world the engine names a category, "Travel", that the user does not have.
  The assignment of the first sender creates it.
\<close>

lemma sample_assign_travel:
  "updateSenderCategory ''u1'' ''x@corp.example'' sampleCategories ''Travel'' sampleWorld =
     (Inr (Some \<lparr>category_id = 4, category_name = ''Travel'', category_description = None,
                 category_userId = ''u1''\<rparr>,
           \<lparr>newsletter_email = ''x@corp.example'', newsletter_userId = ''u1'',
            newsletter_categoryId = Some 4\<rparr>),
      \<lparr>db = \<lparr>categoryRows = sampleCategories @
                 [\<lparr>category_id = 4, category_name = ''Travel'', category_description = None,
                   category_userId = ''u1''\<rparr>],
              newsletterRows = [\<lparr>newsletter_email = ''x@corp.example'', newsletter_userId = ''u1'',
                                  newsletter_categoryId = Some 4\<rparr>],
              userRows = [sampleUser], nextId = 5\<rparr>,
        calls = []\<rparr>)"
  by (simp add: updateSenderCategory_def category_create_def newsletter_upsert_def
        newsletter_key_def sample_defs Let_def)

text \<open>
  A second sender of the same run is given "Travel" too. The catalog was read at the start
  of the run, so the category is created again; the conflict comes back as the result and
  the second sender has no assignment. The same happens in a whole run: on the page with
  two senders the batch engine names the same new category for both, and the run ends with
  the conflict.
\<close>

lemma sample_run_conflict:
  "categorizeSenders sampleEnv ''u1'' (Some ''p3'') sampleWorld =
   (Inl UniqueConstraintViolation,
    \<lparr>db = \<lparr>categoryRows = sampleCategories @
               [\<lparr>category_id = 4, category_name = ''request more information'',
                 category_description = None, category_userId = ''u1''\<rparr>],
            newsletterRows = [\<lparr>newsletter_email = ''x@corp.example'', newsletter_userId = ''u1'',
                                newsletter_categoryId = Some 4\<rparr>],
            userRows = [sampleUser], nextId = 5\<rparr>,
      calls = [ProviderFind (Some ''p3'') (Some 5) (Some 10),
               EngineBatch [''x@corp.example'', ''y@corp.example'']]\<rparr>)"
  by (simp add: pipeline_defs sample_defs name_defs Let_def)

theorem C5_counterexample:
  "fst (updateSenderCategory ''u1'' ''y@corp.example'' sampleCategories ''Travel''
          (snd (updateSenderCategory ''u1'' ''x@corp.example'' sampleCategories ''Travel''
                  sampleWorld))) = Inl UniqueConstraintViolation
   \<and> newsletterRows (db (snd (updateSenderCategory ''u1'' ''y@corp.example'' sampleCategories
          ''Travel''
          (snd (updateSenderCategory ''u1'' ''x@corp.example'' sampleCategories ''Travel''
                  sampleWorld))))) =
       [\<lparr>newsletter_email = ''x@corp.example'', newsletter_userId = ''u1'',
         newsletter_categoryId = Some 4\<rparr>]
   \<and> fst (categorizeSenders sampleEnv ''u1'' (Some ''p3'') sampleWorld) =
       Inl UniqueConstraintViolation"
  by (simp add: sample_assign_travel sample_run_conflict)
     (simp add: updateSenderCategory_def category_create_def sampleCategories_def)

section \<open>Assigning twice\<close>

text \<open>The upsert: the row it returns, the store it leaves, and what a second upsert does.\<close>

lemma find_SomeD: "find P xs = Some x \<Longrightarrow> P x \<and> x \<in> set xs"
  by (auto simp: find_Some_iff)

lemma key_row:
  "newsletter_key s u n \<Longrightarrow>
   n\<lparr>newsletter_categoryId := Some cid\<rparr> =
     \<lparr>newsletter_email = s, newsletter_userId = u, newsletter_categoryId = Some cid\<rparr>"
  by (cases n) (simp add: newsletter_key_def)

lemma newsletter_upsert_row:
  "fst (newsletter_upsert st s u cid) =
     \<lparr>newsletter_email = s, newsletter_userId = u, newsletter_categoryId = Some cid\<rparr>"
  by (auto simp: newsletter_upsert_def Let_def key_row split: option.splits dest: find_SomeD)

lemma newsletter_upsert_store:
  "snd (newsletter_upsert st s u cid) =
     st\<lparr>newsletterRows :=
          (if list_ex (newsletter_key s u) (newsletterRows st)
           then map (\<lambda>m. if newsletter_key s u m then m\<lparr>newsletter_categoryId := Some cid\<rparr> else m)
                  (newsletterRows st)
           else newsletterRows st @
             [\<lparr>newsletter_email = s, newsletter_userId = u, newsletter_categoryId = Some cid\<rparr>])\<rparr>"
  by (auto simp: newsletter_upsert_def Let_def list_ex_iff find_None_iff
        split: option.splits dest: find_SomeD)

lemma filter_key_map:
  "filter (newsletter_key s u)
     (map (\<lambda>m. if newsletter_key s u m then m\<lparr>newsletter_categoryId := Some cid\<rparr> else m) rows)
   = map (\<lambda>m. m\<lparr>newsletter_categoryId := Some cid\<rparr>) (filter (newsletter_key s u) rows)"
  by (induction rows) (auto simp: newsletter_key_def)

lemma newsletter_upsert_count:
  "length (filter (newsletter_key s u) (newsletterRows (snd (newsletter_upsert st s u cid)))) =
     max 1 (length (filter (newsletter_key s u) (newsletterRows st)))"
proof (cases "list_ex (newsletter_key s u) (newsletterRows st)")
  case True
  then obtain n where "n \<in> set (newsletterRows st)" "newsletter_key s u n"
    by (auto simp: list_ex_iff)
  then have "1 \<le> length (filter (newsletter_key s u) (newsletterRows st))"
    by (rule filter_nonempty)
  with True show ?thesis
    by (simp add: newsletter_upsert_store filter_key_map)
next
  case False
  then have "filter (newsletter_key s u) (newsletterRows st) = []"
    by (auto simp: list_ex_iff filter_empty_conv)
  with False show ?thesis
    by (simp add: newsletter_upsert_store newsletter_key_def)
qed

lemma newsletter_upsert_twice:
  "newsletter_upsert (snd (newsletter_upsert st s u cid)) s u cid =
     (fst (newsletter_upsert st s u cid), snd (newsletter_upsert st s u cid))"
proof -
  let ?f = "\<lambda>m. if newsletter_key s u m then m\<lparr>newsletter_categoryId := Some cid\<rparr> else m"
  let ?row = "\<lparr>newsletter_email = s, newsletter_userId = u, newsletter_categoryId = Some cid\<rparr>"
  let ?st1 = "snd (newsletter_upsert st s u cid)"
  have ff: "?f (?f m) = ?f m" for m
    by (simp add: newsletter_key_def)
  have "filter (newsletter_key s u) (newsletterRows ?st1) \<noteq> []"
    using newsletter_upsert_count [of s u st cid] by auto
  then have ex1: "list_ex (newsletter_key s u) (newsletterRows ?st1)"
    by (auto simp: list_ex_iff filter_empty_conv)
  have "map ?f (newsletterRows ?st1) = newsletterRows ?st1"
  proof (cases "list_ex (newsletter_key s u) (newsletterRows st)")
    case True
    then show ?thesis using ff by (simp add: newsletter_upsert_store)
  next
    case False
    then have "map ?f (newsletterRows st) = newsletterRows st"
      by (auto simp: list_ex_iff map_idI)
    with False show ?thesis
      by (simp add: newsletter_upsert_store newsletter_key_def)
  qed
  then have "snd (newsletter_upsert ?st1 s u cid) = ?st1"
    using ex1 by (simp add: newsletter_upsert_store [of ?st1])
  then show ?thesis
    by (simp add: prod_eq_iff newsletter_upsert_row)
qed

text \<open>
  C6, as amended. Let the first call of the assignment succeed, from a store with at most
  one assignment row for the sender and user. Then there is exactly one such row; the
  number of the user's categories of that name is one when the category had to be created
  and is unchanged otherwise; and a second call with the same arguments leaves the world
  as the first call left it. When the category name is in the catalog that was passed in,
  the second call returns what the first returned. When the first call had to create the
  category, the second call fails with the duplicate-name conflict, before the upsert.
\<close>

theorem C6_assignment_replayed:
  assumes "length (filter (newsletter_key s userId) (newsletterRows (db w))) \<le> 1"
    and "updateSenderCategory userId s categories categoryName w = (Inr out, w1)"
  shows "length (filter (newsletter_key s userId) (newsletterRows (db w1))) = 1
       \<and> length (filter (\<lambda>c. category_name c = categoryName \<and> category_userId c = userId)
                   (categoryRows (db w1))) =
          (if find (\<lambda>c. category_name c = categoryName) categories = None then 1
           else length (filter (\<lambda>c. category_name c = categoryName \<and> category_userId c = userId)
                          (categoryRows (db w))))
       \<and> updateSenderCategory userId s categories categoryName w1 =
          (if find (\<lambda>c. category_name c = categoryName) categories = None
           then Inl UniqueConstraintViolation else Inr out, w1)"
proof (cases "find (\<lambda>c. category_name c = categoryName) categories")
  case (Some c)
  let ?up = "newsletter_upsert (db w) s userId (category_id c)"
  from assms(2) Some have out: "out = (None, fst ?up)" and w1: "w1 = w\<lparr>db := snd ?up\<rparr>"
    by (auto simp: updateSenderCategory_def split: prod.splits)
  have n: "length (filter (newsletter_key s userId) (newsletterRows (db w1))) = 1"
    using assms(1) by (simp add: w1 newsletter_upsert_count)
  have c: "categoryRows (db w1) = categoryRows (db w)"
    by (simp add: w1 newsletter_upsert_store)
  have "updateSenderCategory userId s categories categoryName w1 = (Inr out, w1)"
    by (simp add: updateSenderCategory_def Some w1 out newsletter_upsert_twice case_prod_beta)
  with n c Some show ?thesis by simp
next
  case None
  let ?dup = "\<lambda>c. category_name c = categoryName \<and> category_userId c = userId"
  let ?new = "\<lparr>category_id = nextId (db w), category_name = categoryName,
               category_description = None, category_userId = userId\<rparr>"
  let ?stc = "(db w)\<lparr>categoryRows := categoryRows (db w) @ [?new], nextId := Suc (nextId (db w))\<rparr>"
  let ?up = "newsletter_upsert ?stc s userId (category_id ?new)"
  from assms(2) None have nodup: "\<not> list_ex ?dup (categoryRows (db w))"
    by (auto simp: updateSenderCategory_def category_create_def split: if_splits)
  from assms(2) None nodup have w1: "w1 = w\<lparr>db := snd ?up\<rparr>"
    by (auto simp: updateSenderCategory_def category_create_def Let_def split: prod.splits)
  have n: "length (filter (newsletter_key s userId) (newsletterRows (db w1))) = 1"
    using assms(1) by (simp add: w1 newsletter_upsert_count)
  have rows: "categoryRows (db w1) = categoryRows (db w) @ [?new]"
    by (simp add: w1 newsletter_upsert_store)
  have "filter ?dup (categoryRows (db w)) = []"
    using nodup by (auto simp: list_ex_iff filter_empty_conv)
  then have c: "length (filter ?dup (categoryRows (db w1))) = 1"
    by (simp add: rows)
  have "list_ex ?dup (categoryRows (db w1))"
    by (simp add: rows list_ex_iff)
  then have "updateSenderCategory userId s categories categoryName w1 =
               (Inl UniqueConstraintViolation, w1)"
    by (simp add: updateSenderCategory_def None category_create_def)
  with n c None show ?thesis by simp
qed


theorem C6_assignment_replayed_witness:
  "length (filter (newsletter_key ''x@corp.example'' ''u1'') (newsletterRows (db sampleWorld))) \<le> 1
   \<and> updateSenderCategory ''u1'' ''x@corp.example'' sampleCategories ''Personal'' sampleWorld =
       (Inr (None, \<lparr>newsletter_email = ''x@corp.example'', newsletter_userId = ''u1'',
                    newsletter_categoryId = Some 3\<rparr>),
        \<lparr>db = sampleStore\<lparr>newsletterRows :=
           [\<lparr>newsletter_email = ''x@corp.example'', newsletter_userId = ''u1'',
             newsletter_categoryId = Some 3\<rparr>]\<rparr>, calls = []\<rparr>)
   \<and> length (filter (newsletter_key ''x@corp.example'' ''u1'')
        (newsletterRows (db \<lparr>db = sampleStore\<lparr>newsletterRows :=
           [\<lparr>newsletter_email = ''x@corp.example'', newsletter_userId = ''u1'',
             newsletter_categoryId = Some 3\<rparr>]\<rparr>, calls = []\<rparr>))) = 1
   \<and> updateSenderCategory ''u1'' ''x@corp.example'' sampleCategories ''Personal''
        \<lparr>db = sampleStore\<lparr>newsletterRows :=
           [\<lparr>newsletter_email = ''x@corp.example'', newsletter_userId = ''u1'',
             newsletter_categoryId = Some 3\<rparr>]\<rparr>, calls = []\<rparr> =
       (Inr (None, \<lparr>newsletter_email = ''x@corp.example'', newsletter_userId = ''u1'',
                    newsletter_categoryId = Some 3\<rparr>),
        \<lparr>db = sampleStore\<lparr>newsletterRows :=
           [\<lparr>newsletter_email = ''x@corp.example'', newsletter_userId = ''u1'',
             newsletter_categoryId = Some 3\<rparr>]\<rparr>, calls = []\<rparr>)"
proof -
  let ?row = "\<lparr>newsletter_email = ''x@corp.example'', newsletter_userId = ''u1'',
               newsletter_categoryId = Some 3\<rparr>"
  let ?w1 = "\<lparr>db = sampleStore\<lparr>newsletterRows := [?row]\<rparr>, calls = []\<rparr>"
  have a: "length (filter (newsletter_key ''x@corp.example'' ''u1'')
             (newsletterRows (db sampleWorld))) \<le> 1"
    by (simp add: sampleWorld_def sampleStore_def)
  have b: "updateSenderCategory ''u1'' ''x@corp.example'' sampleCategories ''Personal''
             sampleWorld = (Inr (None, ?row), ?w1)"
    by (simp add: updateSenderCategory_def newsletter_upsert_def newsletter_key_def
          sample_defs Let_def)
  have c: "find (\<lambda>c. category_name c = ''Personal'') sampleCategories \<noteq> None"
    by (simp add: sampleCategories_def)
  show ?thesis
    using C6_assignment_replayed [OF a b] a b c by simp
qed

text \<open>
  The second of two identical calls does not overwrite the assignment when the first one
  created the category: it fails.
\<close>

theorem C6_counterexample:
  "fst (updateSenderCategory ''u1'' ''x@corp.example'' sampleCategories ''Travel'' sampleWorld) =
     Inr (Some \<lparr>category_id = 4, category_name = ''Travel'', category_description = None,
                category_userId = ''u1''\<rparr>,
          \<lparr>newsletter_email = ''x@corp.example'', newsletter_userId = ''u1'',
           newsletter_categoryId = Some 4\<rparr>)
   \<and> fst (updateSenderCategory ''u1'' ''x@corp.example'' sampleCategories ''Travel''
          (snd (updateSenderCategory ''u1'' ''x@corp.example'' sampleCategories ''Travel''
                  sampleWorld))) = Inl UniqueConstraintViolation"
  by (simp add: sample_assign_travel)
     (simp add: updateSenderCategory_def category_create_def sampleCategories_def)

section \<open>Failures in the fallback loop\<close>

text \<open>The loop over a list in two parts.\<close>

lemma categorizeUnknownSendersFrom_append:
  "categorizeUnknownSendersFrom e sendersMap user categories userId (xs @ ys) n w =
     (case categorizeUnknownSendersFrom e sendersMap user categories userId xs n w of
        (Inl err, w1) \<Rightarrow> (Inl err, w1)
      | (Inr n1, w1) \<Rightarrow>
          categorizeUnknownSendersFrom e sendersMap user categories userId ys n1 w1)"
  by (induction xs arbitrary: n w) (auto split: sum.splits prod.splits)

text \<open>On the sample world the loop categorizes the sender "y@corp.example".\<close>

lemma sample_fallback_one:
  "categorizeUnknownSendersFrom sampleEnv [] sampleUser sampleCategories ''u1''
     [\<lparr>sender = ''y@corp.example'', category = None\<rparr>] 0 sampleWorld =
   (Inr 1,
    \<lparr>db = sampleStore\<lparr>newsletterRows :=
            [\<lparr>newsletter_email = ''y@corp.example'', newsletter_userId = ''u1'',
              newsletter_categoryId = Some 3\<rparr>]\<rparr>,
      calls = [ProviderThreads ''y@corp.example'' 3, EngineSingle ''y@corp.example'' []]\<rparr>)"
  by (simp add: pipeline_defs sample_defs Let_def)

text \<open>
  C4, as amended. In the fallback loop a failure of the provider's fetch or of the engine's
  call for one sender is not caught. Let the senders before it have been processed without
  an error. Then the loop ends with that failure as its result, whatever senders come
  after: they are not processed and no count is returned. A missing answer of the engine
  leaves the sender uncounted, and the loop goes on with the senders after it.
\<close>

theorem C4_fallback_failure_aborts:
  assumes "categorizeUnknownSendersFrom e sendersMap user categories userId earlier n w =
             (Inr n1, w1)"
  shows
  "(snippetsOf sendersMap (sender r) = [] \<and> getThreadsFromSender e (sender r) 3 = Inl err \<longrightarrow>
      categorizeUnknownSendersFrom e sendersMap user categories userId (earlier @ r # rest) n w =
        (Inl err, logCall (ProviderThreads (sender r) 3) w1))
   \<and> (previousEmailsFor e sendersMap r w1 = (Inr prev, w2)
       \<and> aiCategorizeSender e user (sender r) prev categories = Inl err \<longrightarrow>
      categorizeUnknownSendersFrom e sendersMap user categories userId (earlier @ r # rest) n w =
        (Inl err, logCall (EngineSingle (sender r) prev) w2))
   \<and> (previousEmailsFor e sendersMap r w1 = (Inr prev, w2)
       \<and> aiCategorizeSender e user (sender r) prev categories = Inr None \<longrightarrow>
      categorizeUnknownSendersFrom e sendersMap user categories userId (earlier @ r # rest) n w =
        categorizeUnknownSendersFrom e sendersMap user categories userId rest n1
          (logCall (EngineSingle (sender r) prev) w2))"
  using assms
  by (simp add: categorizeUnknownSendersFrom_append categorizeUnknownSender_def
        previousEmailsFor_def getPreviousEmails_def Let_def)

theorem C4_fallback_failure_aborts_witness:
  "categorizeUnknownSendersFrom sampleEnv [] sampleUser sampleCategories ''u1''
     [\<lparr>sender = ''y@corp.example'', category = None\<rparr>] 0 sampleWorld =
   (Inr 1,
    \<lparr>db = sampleStore\<lparr>newsletterRows :=
            [\<lparr>newsletter_email = ''y@corp.example'', newsletter_userId = ''u1'',
              newsletter_categoryId = Some 3\<rparr>]\<rparr>,
      calls = [ProviderThreads ''y@corp.example'' 3, EngineSingle ''y@corp.example'' []]\<rparr>)
   \<and> (snippetsOf [] (sender \<lparr>sender = ''unreachable@corp.example'', category = None\<rparr>) = []
    \<and> getThreadsFromSender sampleEnv
          (sender \<lparr>sender = ''unreachable@corp.example'', category = None\<rparr>) 3 =
        Inl (ProviderFailure ''timeout'')
    \<and> categorizeUnknownSendersFrom sampleEnv [] sampleUser sampleCategories ''u1''
          [\<lparr>sender = ''y@corp.example'', category = None\<rparr>,
           \<lparr>sender = ''unreachable@corp.example'', category = None\<rparr>,
           \<lparr>sender = ''z@corp.example'', category = None\<rparr>] 0 sampleWorld =
        (Inl (ProviderFailure ''timeout''),
         \<lparr>db = sampleStore\<lparr>newsletterRows :=
            [\<lparr>newsletter_email = ''y@corp.example'', newsletter_userId = ''u1'',
              newsletter_categoryId = Some 3\<rparr>]\<rparr>,
           calls = [ProviderThreads ''y@corp.example'' 3, EngineSingle ''y@corp.example'' [],
                    ProviderThreads ''unreachable@corp.example'' 3]\<rparr>))
   \<and> (aiCategorizeSender sampleEnv sampleUser
          (sender \<lparr>sender = ''overloaded@corp.example'', category = None\<rparr>) [] sampleCategories =
        Inl (EngineFailure ''rate limit'')
    \<and> categorizeUnknownSendersFrom sampleEnv [] sampleUser sampleCategories ''u1''
          [\<lparr>sender = ''y@corp.example'', category = None\<rparr>,
           \<lparr>sender = ''overloaded@corp.example'', category = None\<rparr>,
           \<lparr>sender = ''z@corp.example'', category = None\<rparr>] 0 sampleWorld =
        (Inl (EngineFailure ''rate limit''),
         \<lparr>db = sampleStore\<lparr>newsletterRows :=
            [\<lparr>newsletter_email = ''y@corp.example'', newsletter_userId = ''u1'',
              newsletter_categoryId = Some 3\<rparr>]\<rparr>,
           calls = [ProviderThreads ''y@corp.example'' 3, EngineSingle ''y@corp.example'' [],
                    ProviderThreads ''overloaded@corp.example'' 3,
                    EngineSingle ''overloaded@corp.example'' []]\<rparr>))
   \<and> (aiCategorizeSender sampleEnv sampleUser
          (sender \<lparr>sender = ''silent@corp.example'', category = None\<rparr>) [] sampleCategories =
        Inr None
    \<and> categorizeUnknownSendersFrom sampleEnv [] sampleUser sampleCategories ''u1''
          [\<lparr>sender = ''y@corp.example'', category = None\<rparr>,
           \<lparr>sender = ''silent@corp.example'', category = None\<rparr>,
           \<lparr>sender = ''z@corp.example'', category = None\<rparr>] 0 sampleWorld =
        categorizeUnknownSendersFrom sampleEnv [] sampleUser sampleCategories ''u1''
          [\<lparr>sender = ''z@corp.example'', category = None\<rparr>] 1
          \<lparr>db = sampleStore\<lparr>newsletterRows :=
            [\<lparr>newsletter_email = ''y@corp.example'', newsletter_userId = ''u1'',
              newsletter_categoryId = Some 3\<rparr>]\<rparr>,
           calls = [ProviderThreads ''y@corp.example'' 3, EngineSingle ''y@corp.example'' [],
                    ProviderThreads ''silent@corp.example'' 3,
                    EngineSingle ''silent@corp.example'' []]\<rparr>)"
proof -
  let ?u = "\<lparr>sender = ''unreachable@corp.example'', category = None\<rparr>"
  let ?o = "\<lparr>sender = ''overloaded@corp.example'', category = None\<rparr>"
  let ?s = "\<lparr>sender = ''silent@corp.example'', category = None\<rparr>"
  let ?y = "\<lparr>sender = ''y@corp.example'', category = None\<rparr>"
  let ?z = "\<lparr>sender = ''z@corp.example'', category = None\<rparr>"
  let ?w1 = "\<lparr>db = sampleStore\<lparr>newsletterRows :=
            [\<lparr>newsletter_email = ''y@corp.example'', newsletter_userId = ''u1'',
              newsletter_categoryId = Some 3\<rparr>]\<rparr>,
      calls = [ProviderThreads ''y@corp.example'' 3, EngineSingle ''y@corp.example'' []]\<rparr>"
  note y = sample_fallback_one
  have u1: "snippetsOf [] (sender ?u) = []"
    by (simp add: snippetsOf_def mapGet_def)
  have u2: "getThreadsFromSender sampleEnv (sender ?u) 3 = Inl (ProviderFailure ''timeout'')"
    by (simp add: sampleEnv_def)
  have o1: "previousEmailsFor sampleEnv [] ?o ?w1 =
              (Inr [], logCall (ProviderThreads ''overloaded@corp.example'' 3) ?w1)"
    by (simp add: previousEmailsFor_def getPreviousEmails_def snippetsOf_def mapGet_def
          filterDefined_def List.map_filter_def sampleEnv_def)
  have o2: "aiCategorizeSender sampleEnv sampleUser (sender ?o) [] sampleCategories =
              Inl (EngineFailure ''rate limit'')"
    by (simp add: sampleEnv_def)
  have s1: "previousEmailsFor sampleEnv [] ?s ?w1 =
              (Inr [], logCall (ProviderThreads ''silent@corp.example'' 3) ?w1)"
    by (simp add: previousEmailsFor_def getPreviousEmails_def snippetsOf_def mapGet_def
          filterDefined_def List.map_filter_def sampleEnv_def)
  have s2: "aiCategorizeSender sampleEnv sampleUser (sender ?s) [] sampleCategories = Inr None"
    by (simp add: sampleEnv_def)
  have a: "categorizeUnknownSendersFrom sampleEnv [] sampleUser sampleCategories ''u1''
             [?y, ?u, ?z] 0 sampleWorld =
           (Inl (ProviderFailure ''timeout''),
            logCall (ProviderThreads ''unreachable@corp.example'' 3) ?w1)"
    using C4_fallback_failure_aborts [OF y, where r = ?u
        and err = "ProviderFailure ''timeout''" and rest = "[?z]"] u1 u2
    by simp
  have b: "categorizeUnknownSendersFrom sampleEnv [] sampleUser sampleCategories ''u1''
             [?y, ?o, ?z] 0 sampleWorld =
           (Inl (EngineFailure ''rate limit''),
            logCall (EngineSingle ''overloaded@corp.example'' [])
              (logCall (ProviderThreads ''overloaded@corp.example'' 3) ?w1))"
    using C4_fallback_failure_aborts [OF y, where r = ?o
        and err = "EngineFailure ''rate limit''" and rest = "[?z]" and prev = "[]"
        and ?w2.0 = "logCall (ProviderThreads ''overloaded@corp.example'' 3) ?w1"] o1 o2
    by simp
  have c: "categorizeUnknownSendersFrom sampleEnv [] sampleUser sampleCategories ''u1''
             [?y, ?s, ?z] 0 sampleWorld =
           categorizeUnknownSendersFrom sampleEnv [] sampleUser sampleCategories ''u1'' [?z] 1
             (logCall (EngineSingle ''silent@corp.example'' [])
                (logCall (ProviderThreads ''silent@corp.example'' 3) ?w1))"
    using C4_fallback_failure_aborts [OF y, where r = ?s
        and rest = "[?z]" and prev = "[]"
        and ?w2.0 = "logCall (ProviderThreads ''silent@corp.example'' 3) ?w1"] s1 s2
    by simp
  have l: "logCall (ProviderThreads ''unreachable@corp.example'' 3) ?w1 =
      \<lparr>db = sampleStore\<lparr>newsletterRows :=
            [\<lparr>newsletter_email = ''y@corp.example'', newsletter_userId = ''u1'',
              newsletter_categoryId = Some 3\<rparr>]\<rparr>,
           calls = [ProviderThreads ''y@corp.example'' 3, EngineSingle ''y@corp.example'' [],
                    ProviderThreads ''unreachable@corp.example'' 3]\<rparr>"
     "logCall (EngineSingle ''overloaded@corp.example'' [])
              (logCall (ProviderThreads ''overloaded@corp.example'' 3) ?w1) =
      \<lparr>db = sampleStore\<lparr>newsletterRows :=
            [\<lparr>newsletter_email = ''y@corp.example'', newsletter_userId = ''u1'',
              newsletter_categoryId = Some 3\<rparr>]\<rparr>,
           calls = [ProviderThreads ''y@corp.example'' 3, EngineSingle ''y@corp.example'' [],
                    ProviderThreads ''overloaded@corp.example'' 3,
                    EngineSingle ''overloaded@corp.example'' []]\<rparr>"
     "logCall (EngineSingle ''silent@corp.example'' [])
                (logCall (ProviderThreads ''silent@corp.example'' 3) ?w1) =
      \<lparr>db = sampleStore\<lparr>newsletterRows :=
            [\<lparr>newsletter_email = ''y@corp.example'', newsletter_userId = ''u1'',
              newsletter_categoryId = Some 3\<rparr>]\<rparr>,
           calls = [ProviderThreads ''y@corp.example'' 3, EngineSingle ''y@corp.example'' [],
                    ProviderThreads ''silent@corp.example'' 3,
                    EngineSingle ''silent@corp.example'' []]\<rparr>"
    by (simp_all add: logCall_def)
  from y u1 u2 a o2 b s2 c show ?thesis
    unfolding l by (intro conjI)
qed

text \<open>
  The provider cannot be reached for the first of two senders. The loop returns the
  provider's error, not a count, and the second sender, which the loop categorizes when it
  is alone, is never looked at.
\<close>

theorem C4_counterexample:
  "categorizeUnknownSenders sampleEnv
     [\<lparr>sender = ''unreachable@corp.example'', category = None\<rparr>,
      \<lparr>sender = ''y@corp.example'', category = None\<rparr>] [] sampleUser sampleCategories ''u1''
     sampleWorld =
   (Inl (ProviderFailure ''timeout''),
    \<lparr>db = sampleStore, calls = [ProviderThreads ''unreachable@corp.example'' 3]\<rparr>)
   \<and> categorizeUnknownSenders sampleEnv
       [\<lparr>sender = ''y@corp.example'', category = None\<rparr>] [] sampleUser sampleCategories ''u1''
       sampleWorld =
     (Inr 1,
      \<lparr>db = sampleStore\<lparr>newsletterRows :=
              [\<lparr>newsletter_email = ''y@corp.example'', newsletter_userId = ''u1'',
                newsletter_categoryId = Some 3\<rparr>]\<rparr>,
        calls = [ProviderThreads ''y@corp.example'' 3, EngineSingle ''y@corp.example'' []]\<rparr>)"
  by (simp add: pipeline_defs sample_defs Let_def)

end
